theory Spec2Isabelle
  imports Main "HOL-Library.Sublist"
begin

section \<open>JavaScript strings\<close>

text \<open>
  A JavaScript string is modelled as a \<^typ>\<open>string\<close>: one \<^typ>\<open>char\<close> per UTF-16 code unit,
  for code units below 256 (the Latin-1 range, where the code unit is the code point).
  The character classes below are the ECMAScript ones restricted to that range.
\<close>

definition newline :: char where
  "newline = CHR 0x0A"

definition star :: char where
  "star = CHR ''*''"

definition hyphen :: char where
  "hyphen = CHR ''-''"

text \<open>The regular expression class \<open>\s\<close> (and what \<open>trim\<close> strips): tab, line feed,
  vertical tab, form feed, carriage return, space and no-break space.\<close>

definition isWhiteSpace :: "char \<Rightarrow> bool" where
  "isWhiteSpace c = (of_char c \<in> {9, 10, 11, 12, 13, 32, 160 :: nat})"

text \<open>The regular expression class \<open>\w\<close>: \<open>[A-Za-z0-9_]\<close>.\<close>

definition isWordChar :: "char \<Rightarrow> bool" where
  "isWordChar c = (let n = of_char c :: nat in
     (65 \<le> n \<and> n \<le> 90) \<or> (97 \<le> n \<and> n \<le> 122) \<or> (48 \<le> n \<and> n \<le> 57) \<or> n = 95)"

text \<open>What \<open>.\<close> refuses to match: line feed and carriage return.\<close>

definition isLineTerminator :: "char \<Rightarrow> bool" where
  "isLineTerminator c = (of_char c \<in> {10, 13 :: nat})"

definition trim :: "string \<Rightarrow> string" where
  "trim s = rev (dropWhile isWhiteSpace (rev (dropWhile isWhiteSpace s)))"

definition startsWith :: "string \<Rightarrow> string \<Rightarrow> bool" where
  "startsWith s p = (take (length p) s = p)"

definition endsWith :: "string \<Rightarrow> string \<Rightarrow> bool" where
  "endsWith s p = (length p \<le> length s \<and> drop (length s - length p) s = p)"

text \<open>\<open>s.slice(k, -k)\<close> for \<open>k \<ge> 0\<close>: from \<open>min k len\<close> up to \<open>max (len - k) 0\<close>, empty when
  the end is not after the start.\<close>

definition sliceInner :: "nat \<Rightarrow> string \<Rightarrow> string" where
  "sliceInner k s = take ((length s - k) - k) (drop k s)"

text \<open>\<open>s.split(sep)\<close> for a one-character separator; the second argument is the piece
  read so far, reversed.\<close>

fun splitOn :: "char \<Rightarrow> string \<Rightarrow> string \<Rightarrow> string list" where
  "splitOn sep cur [] = [rev cur]"
| "splitOn sep cur (c # cs) =
     (if c = sep then rev cur # splitOn sep [] cs else splitOn sep (c # cur) cs)"

text \<open>Decimal rendering of a number in a template literal.\<close>

definition digitChar :: "nat \<Rightarrow> char" where
  "digitChar d = char_of (48 + d)"

function showNat :: "nat \<Rightarrow> string" where
  "showNat n = (if n < 10 then [digitChar n] else showNat (n div 10) @ [digitChar (n mod 10)])"
  by pat_completeness auto
termination
  by (relation "measure id") auto

definition showInt :: "int \<Rightarrow> string" where
  "showInt i = (if i < 0 then hyphen # showNat (nat (- i)) else showNat (nat i))"


section \<open>Content formatter (utils/contentFormatter)\<close>

subsection \<open>Rich-text blocks\<close>

datatype mark = Strong | Em

text \<open>A span \<open>{_type: 'span', text, marks?}\<close>; \<open>None\<close> is a span without the \<open>marks\<close> field.\<close>

datatype span = Span (spanText: string) (spanMarks: "mark list option")

datatype style = H1 | H2 | H3 | Blockquote | Normal

text \<open>A block \<open>{_type: 'block', style, children}\<close> or an image
  \<open>{_type: 'image', alt, caption}\<close>.\<close>

datatype block =
    Block (blockStyle: style) (children: "span list")
  | Image (alt: string) (caption: string)

subsection \<open>parseInlineFormatting\<close>

text \<open>
  The text is split by \<open>/(\*\*.*?\*\*|\*.*?\*)/g\<close>. \<open>lazyUntilStars2\<close> is the lazy
  \<open>.*?\*\*\<close>: the shortest run of non-terminators followed by two stars; it returns the run
  and what follows the two stars. \<open>lazyUntilStar\<close> is \<open>.*?\*\<close>.
\<close>

fun lazyUntilStars2 :: "string \<Rightarrow> (string \<times> string) option" where
  "lazyUntilStars2 [] = None"
| "lazyUntilStars2 [c] = None"
| "lazyUntilStars2 (c # d # cs) =
     (if c = star \<and> d = star then Some ([], cs)
      else if isLineTerminator c then None
      else map_option (\<lambda>(m, r). (c # m, r)) (lazyUntilStars2 (d # cs)))"

fun lazyUntilStar :: "string \<Rightarrow> (string \<times> string) option" where
  "lazyUntilStar [] = None"
| "lazyUntilStar (c # cs) =
     (if c = star then Some ([], cs)
      else if isLineTerminator c then None
      else map_option (\<lambda>(m, r). (c # m, r)) (lazyUntilStar cs))"

text \<open>The second alternative \<open>\*.*?\*\<close> at the start of the string: the matched text and
  the rest.\<close>

definition matchItalic :: "string \<Rightarrow> (string \<times> string) option" where
  "matchItalic s =
     (case s of
        c # r \<Rightarrow>
          (if c = star
           then map_option (\<lambda>(m, rest). (star # m @ [star], rest)) (lazyUntilStar r)
           else None)
      | [] \<Rightarrow> None)"

text \<open>The whole pattern at the start of the string: the first alternative \<open>\*\*.*?\*\*\<close>
  is tried first, the second when the first fails.\<close>

definition matchEmphasis :: "string \<Rightarrow> (string \<times> string) option" where
  "matchEmphasis s =
     (case s of
        c # d # r \<Rightarrow>
          (if c = star \<and> d = star
           then (case lazyUntilStars2 r of
                   Some (m, rest) \<Rightarrow> Some (star # star # m @ [star, star], rest)
                 | None \<Rightarrow> matchItalic s)
           else matchItalic s)
      | _ \<Rightarrow> matchItalic s)"

lemma lazyUntilStars2_shorter:
  "lazyUntilStars2 s = Some (m, r) \<Longrightarrow> length r < length s"
  by (induction s arbitrary: m r rule: lazyUntilStars2.induct)
     (auto split: if_splits)

lemma lazyUntilStar_shorter:
  "lazyUntilStar s = Some (m, r) \<Longrightarrow> length r < length s"
  by (induction s arbitrary: m r rule: lazyUntilStar.induct)
     (auto split: if_splits)

lemma matchItalic_shorter:
  "matchItalic s = Some (m, r) \<Longrightarrow> length r < length s"
  by (auto simp: matchItalic_def split: list.splits if_splits
           dest: lazyUntilStar_shorter)

lemma matchEmphasis_shorter:
  "matchEmphasis s = Some (m, r) \<Longrightarrow> length r < length s"
  by (auto simp: matchEmphasis_def split: list.splits if_splits option.splits
           dest: lazyUntilStars2_shorter matchItalic_shorter)

text \<open>\<open>text.split(/(...)/g)\<close>: the pieces between the matches, with each match (the
  capture group) between them. The first argument is the piece read so far, reversed.\<close>

function splitEmphasis :: "string \<Rightarrow> string \<Rightarrow> string list" where
  "splitEmphasis cur [] = [rev cur]"
| "splitEmphasis cur (c # cs) =
     (case matchEmphasis (c # cs) of
        Some (m, rest) \<Rightarrow> rev cur # m # splitEmphasis [] rest
      | None \<Rightarrow> splitEmphasis (c # cur) cs)"
  by pat_completeness auto
termination
  by (relation "measure (\<lambda>(cur, s). length s)")
     (auto dest: matchEmphasis_shorter)

text \<open>The body of \<open>parts.forEach\<close>: what one part pushes onto \<open>spans\<close>.\<close>

definition pushPart :: "span list \<Rightarrow> string \<Rightarrow> span list" where
  "pushPart spans part =
     (if part = [] then spans
      else if startsWith part ''**'' \<and> endsWith part ''**''
        then spans @ [Span (sliceInner 2 part) (Some [Strong])]
      else if startsWith part ''*'' \<and> endsWith part ''*''
        then spans @ [Span (sliceInner 1 part) (Some [Em])]
      else spans @ [Span part None])"

definition parseInlineFormatting :: "string \<Rightarrow> span list" where
  "parseInlineFormatting text =
     (let parts = splitEmphasis [] text;
          spans = foldl pushPart [] parts
      in if spans \<noteq> [] then spans else [Span text None])"

subsection \<open>formatBlockContent\<close>

text \<open>The body of the loop over the lines: what one line pushes onto \<open>blocks\<close>.\<close>

definition pushLine :: "block list \<Rightarrow> string \<Rightarrow> block list" where
  "pushLine blocks line =
     (if trim line = [] then blocks
      else if startsWith line ''# '' then blocks @ [Block H1 [Span (drop 2 line) None]]
      else if startsWith line ''## '' then blocks @ [Block H2 [Span (drop 3 line) None]]
      else if startsWith line ''### '' then blocks @ [Block H3 [Span (drop 4 line) None]]
      else if startsWith line ''> '' then blocks @ [Block Blockquote [Span (drop 2 line) None]]
      else blocks @ [Block Normal (parseInlineFormatting line)])"

definition formatBlockContent :: "string \<Rightarrow> block list" where
  "formatBlockContent markdown = foldl pushLine [] (splitOn newline [] markdown)"

subsection \<open>formatContentForSanity\<close>

text \<open>
  A localized value is an object keyed by language code: a map from the key to the value,
  \<open>None\<close> where the key is absent. A body is \<open>any\<close> in the source: an array of blocks, a
  markdown string, or some other truthy value that is neither.
\<close>

type_synonym locale_string = "string \<rightharpoonup> string"

datatype content_value = BlockArray "block list" | MarkdownText string | OtherValue

record seo =
  metaTitle :: locale_string
  metaDescription :: locale_string

record featured_image =
  fi_url :: string
  fi_alt :: string
  fi_photographer :: string
  fi_photographerUrl :: string
  fi_unsplashId :: string

record generated_content =
  gc_title :: locale_string
  gc_excerpt :: locale_string
  gc_content :: "string \<rightharpoonup> content_value"
  gc_featuredImage :: "featured_image option"
  gc_seo :: "seo option"
  gc_tags :: "string list"

record formatted_content =
  f_title :: locale_string
  f_excerpt :: locale_string
  f_content :: "string \<rightharpoonup> block list"
  f_seo :: "seo option"
  f_tags :: "string list"

text \<open>JavaScript truthiness of an optional string: present and not empty.\<close>

definition truthy :: "string option \<Rightarrow> bool" where
  "truthy v = (case v of Some s \<Rightarrow> s \<noteq> [] | None \<Rightarrow> False)"

text \<open>Truthiness of an optional body: an array and an object are truthy, a string when
  it is not empty.\<close>

definition truthyContent :: "content_value option \<Rightarrow> bool" where
  "truthyContent v =
     (case v of
        Some (MarkdownText md) \<Rightarrow> md \<noteq> []
      | Some _ \<Rightarrow> True
      | None \<Rightarrow> False)"

definition supportedLanguages :: "string list" where
  "supportedLanguages = [''ro'', ''en'', ''pl'', ''hu'', ''cs'']"

text \<open>The body of the loop over the five languages.\<close>

definition formatLanguage ::
  "generated_content \<Rightarrow> formatted_content \<Rightarrow> string \<Rightarrow> formatted_content" where
  "formatLanguage content fc lang =
     (let fc1 = (if truthy (gc_title content lang)
                 then fc\<lparr>f_title := (f_title fc)(lang := gc_title content lang)\<rparr> else fc);
          fc2 = (if truthy (gc_excerpt content lang)
                 then fc1\<lparr>f_excerpt := (f_excerpt fc1)(lang := gc_excerpt content lang)\<rparr>
                 else fc1);
          fc3 = (if truthyContent (gc_content content lang)
                 then (case gc_content content lang of
                         Some (BlockArray bs) \<Rightarrow> fc2\<lparr>f_content := (f_content fc2)(lang \<mapsto> bs)\<rparr>
                       | Some (MarkdownText md) \<Rightarrow>
                           fc2\<lparr>f_content := (f_content fc2)(lang \<mapsto> formatBlockContent md)\<rparr>
                       | _ \<Rightarrow> fc2)
                 else fc2)
      in (case gc_seo content of
            None \<Rightarrow> fc3
          | Some s \<Rightarrow>
              (let fc4 = (if truthy (metaTitle s lang)
                          then fc3\<lparr>f_seo := map_option
                                 (\<lambda>t. t\<lparr>metaTitle := (metaTitle t)(lang := metaTitle s lang)\<rparr>)
                                 (f_seo fc3)\<rparr>
                          else fc3)
               in (if truthy (metaDescription s lang)
                   then fc4\<lparr>f_seo := map_option
                          (\<lambda>t. t\<lparr>metaDescription :=
                                  (metaDescription t)(lang := metaDescription s lang)\<rparr>)
                          (f_seo fc4)\<rparr>
                   else fc4))))"

definition formatContentForSanity :: "generated_content \<Rightarrow> formatted_content" where
  "formatContentForSanity content =
     foldl (formatLanguage content)
       \<lparr>f_title = Map.empty, f_excerpt = Map.empty, f_content = Map.empty,
        f_seo = (case gc_seo content of
                   Some s \<Rightarrow> Some \<lparr>metaTitle = Map.empty, metaDescription = Map.empty\<rparr>
                 | None \<Rightarrow> None),
        f_tags = gc_tags content\<rparr>
       supportedLanguages"

subsection \<open>addImagePlaceholders\<close>

text \<open>
  Arrays are objects on the heap: a store maps a reference to the array's elements, and
  \<open>nextRef\<close> is the first reference not yet in use. \<open>[...blocks]\<close> allocates a new array;
  \<open>splice\<close> updates an array in place.
\<close>

record 'a store =
  cells :: "nat \<Rightarrow> 'a list"
  nextRef :: nat

definition alloc :: "'a list \<Rightarrow> 'a store \<Rightarrow> nat \<times> 'a store" where
  "alloc xs s = (nextRef s, s\<lparr>cells := (cells s)(nextRef s := xs), nextRef := Suc (nextRef s)\<rparr>)"

text \<open>The elements after \<open>xs.splice(start, 0, x)\<close>: a negative start counts from the end,
  and the start is clamped to the array.\<close>

definition spliceInsert :: "int \<Rightarrow> 'a \<Rightarrow> 'a list \<Rightarrow> 'a list" where
  "spliceInsert start x xs =
     (let len = int (length xs);
          k = (if start < 0 then max (len + start) 0 else min start len)
      in take (nat k) xs @ [x] @ drop (nat k) xs)"

definition spliceAt :: "nat \<Rightarrow> int \<Rightarrow> 'a \<Rightarrow> 'a store \<Rightarrow> 'a store" where
  "spliceAt r start x s = s\<lparr>cells := (cells s)(r := spliceInsert start x (cells s r))\<rparr>"

definition placeholder :: "int \<Rightarrow> block" where
  "placeholder n =
     Image (''[Placeholder '' @ showInt n @ '': Add relevant image here]'')
           ''Replace with appropriate image''"

text \<open>The \<open>for\<close> loop that fills \<open>positions\<close>: \<open>spacing * i\<close> for \<open>i\<close> from 1 to \<open>count\<close>
  (none when \<open>count < 1\<close>).\<close>

definition placeholderPositions :: "int \<Rightarrow> int \<Rightarrow> int list" where
  "placeholderPositions spacing count = map (\<lambda>i. spacing * i) [1..count]"

text \<open>\<open>positions.reverse().forEach((pos, index) => newBlocks.splice(pos, 0, ...))\<close>, over
  the reversed positions paired with their indices.\<close>

fun insertPlaceholders :: "nat \<Rightarrow> int \<Rightarrow> (int \<times> nat) list \<Rightarrow> block store \<Rightarrow> block store" where
  "insertPlaceholders newBlocks count [] s = s"
| "insertPlaceholders newBlocks count ((pos, index) # rest) s =
     insertPlaceholders newBlocks count rest
       (spliceAt newBlocks pos (placeholder (count - int index)) s)"

text \<open>
  \<open>addImagePlaceholders(blocks, count)\<close>, with \<open>blocks\<close> a reference and \<open>count\<close> an
  integer; it returns the reference of the result. \<open>Math.floor(totalBlocks / (count + 1))\<close>
  is \<open>div\<close> on integers; for \<open>count = -1\<close> JavaScript divides by zero (\<open>Infinity\<close>), and the
  quotient is not used, there being no position.
\<close>

definition addImagePlaceholders :: "nat \<Rightarrow> int \<Rightarrow> block store \<Rightarrow> nat \<times> block store" where
  "addImagePlaceholders blocks count s =
     (let totalBlocks = int (length (cells s blocks)) in
      if totalBlocks < 3 then (blocks, s)
      else
        (let (newBlocks, s1) = alloc (cells s blocks) s;
             spacing = totalBlocks div (count + 1);
             positions = placeholderPositions spacing count;
             reversed = rev positions
         in (newBlocks,
             insertPlaceholders newBlocks count (zip reversed [0 ..< length reversed]) s1)))"


section \<open>Slug generation (hooks/useGenerateContent)\<close>

text \<open>\<open>toLowerCase\<close> on the code units below 256: the letters \<open>A\<close> to \<open>Z\<close> and the
  Latin-1 capitals \<open>0xC0\<close> to \<open>0xDE\<close> (the multiplication sign \<open>0xD7\<close> apart) move up by 32.\<close>

definition toLowerChar :: "char \<Rightarrow> char" where
  "toLowerChar c = (let n = of_char c :: nat in
     if (65 \<le> n \<and> n \<le> 90) \<or> (192 \<le> n \<and> n \<le> 222 \<and> n \<noteq> 215) then char_of (n + 32) else c)"

definition toLowerCase :: "string \<Rightarrow> string" where
  "toLowerCase s = map toLowerChar s"

text \<open>\<open>s.replace(/P+/g, '-')\<close> for a character class \<open>P\<close>: every maximal run of
  characters of the class becomes one hyphen.\<close>

function replaceRuns :: "(char \<Rightarrow> bool) \<Rightarrow> string \<Rightarrow> string" where
  "replaceRuns P [] = []"
| "replaceRuns P (c # cs) =
     (if P c then hyphen # replaceRuns P (dropWhile P cs) else c # replaceRuns P cs)"
  by pat_completeness auto
termination
  by (relation "measure (\<lambda>(P, s). length s)")
     (auto simp: length_dropWhile_le less_Suc_eq_le)

text \<open>\<open>s.replace(/[^\w\s-]/g, '')\<close>: only word characters, white space and hyphens stay.\<close>

definition stripPunctuation :: "string \<Rightarrow> string" where
  "stripPunctuation s = filter (\<lambda>c. isWordChar c \<or> isWhiteSpace c \<or> c = hyphen) s"

definition generateSlug :: "string \<Rightarrow> string" where
  "generateSlug title =
     trim (replaceRuns (\<lambda>c. c = hyphen)
            (replaceRuns isWhiteSpace (stripPunctuation (toLowerCase title))))"

text \<open>The argument of \<open>generateSlug\<close> in \<open>generate\<close>:
  \<open>formattedContent.title.ro || formattedContent.title.en || ''\<close>.\<close>

definition slugTitle :: "locale_string \<Rightarrow> string" where
  "slugTitle t =
     (if truthy (t ''ro'') then (case t ''ro'' of Some s \<Rightarrow> s | None \<Rightarrow> [])
      else if truthy (t ''en'') then (case t ''en'' of Some s \<Rightarrow> s | None \<Rightarrow> [])
      else [])"

text \<open>Whether two hyphens stand side by side.\<close>

fun hasRepeatedHyphen :: "string \<Rightarrow> bool" where
  "hasRepeatedHyphen (c # d # cs) = ((c = hyphen \<and> d = hyphen) \<or> hasRepeatedHyphen (d # cs))"
| "hasRepeatedHyphen _ = False"

text \<open>The title \<open>C\<^verbatim>\<open>a\<close>ine fericit!\<close> with a circumflex on the \<open>a\<close> (code unit \<open>0xE2\<close>).\<close>

definition caineFericit :: string where
  "caineFericit = ''C'' @ [CHR 0xE2] @ ''ine fericit!''"


section \<open>Secrets loader (lib/secrets-manager)\<close>

datatype environment = Production | Staging | Development

text \<open>\<open>process.env\<close>: a map from the variable's name to its value.\<close>

type_synonym process_env = "string \<rightharpoonup> string"

text \<open>\<open>a || b\<close> for an optional string \<open>a\<close>: \<open>b\<close> when \<open>a\<close> is absent or empty.\<close>

definition orElse :: "string option \<Rightarrow> string \<Rightarrow> string" where
  "orElse a b = (case a of Some s \<Rightarrow> (if s \<noteq> [] then s else b) | None \<Rightarrow> b)"

definition getEnvironment :: "process_env \<Rightarrow> environment" where
  "getEnvironment penv =
     (let env = orElse (penv ''NODE_ENV'') ''development'' in
      if penv ''VERCEL_ENV'' = Some ''production'' then Production
      else if penv ''VERCEL_ENV'' = Some ''preview'' then Staging
      else if env = ''production'' then Production
      else if env = ''test'' \<or> env = ''staging'' then Staging
      else Development)"

definition getProjectId :: "process_env \<Rightarrow> string" where
  "getProjectId penv =
     orElse (penv ''GOOGLE_CLOUD_PROJECT'')
       (orElse (penv ''GCP_PROJECT_ID'') ''careful-drummer-468512-p0'')"

fun suffixMap :: "environment \<Rightarrow> string" where
  "suffixMap Production = ''_PROD''"
| "suffixMap Staging = ''_STG''"
| "suffixMap Development = ''_DEV''"

definition formatSecretName :: "process_env \<Rightarrow> string \<Rightarrow> environment option \<Rightarrow> string" where
  "formatSecretName penv secretName environment =
     (let env = (case environment of Some e \<Rightarrow> e | None \<Rightarrow> getEnvironment penv);
          suffix = suffixMap env
      in if endsWith secretName ''_PROD'' \<or> endsWith secretName ''_STG''
            \<or> endsWith secretName ''_DEV''
         then secretName
         else if env = Development then secretName
         else secretName @ suffix)"

text \<open>\<open>CACHE_TIMEOUT\<close>, in milliseconds.\<close>

definition CACHE_TIMEOUT :: int where
  "CACHE_TIMEOUT = 5 * 60 * 1000"

text \<open>What \<open>accessSecretVersion\<close> does for a resource name: a version with data, a version
  without payload or data, or a rejection with a status code and a message.\<close>

datatype remote_result = SecretData string | NoData | Rejection int string

text \<open>An error thrown by \<open>getSecret\<close>: its \<open>code\<close>, when it has one, and its message.\<close>

datatype secret_error = SecretError (errorCode: "int option") (errorMessage: string)

text \<open>The module's state: the cache, from the cache key to the value and the time of the
  fetch, and the resource names passed to \<open>accessSecretVersion\<close> so far, oldest first.\<close>

record secrets_state =
  secretsCache :: "string \<rightharpoonup> (string \<times> int)"
  remoteCalls :: "string list"

text \<open>The \<open>options\<close> argument; \<open>None\<close> is a field left out.\<close>

record secret_options =
  opt_environment :: "environment option"
  opt_useCache :: "bool option"
  opt_projectId :: "string option"

definition devHelpMessage :: "string \<Rightarrow> string \<Rightarrow> string" where
  "devHelpMessage formattedSecretName secretName =
     ''Failed to fetch secret '' @ [CHR 0x27] @ formattedSecretName @ [CHR 0x27] @ ''. ''
     @ ''For local development, either:'' @ [newline]
     @ ''1. Set up Google Cloud credentials (recommended)'' @ [newline]
     @ ''2. Add '' @ secretName @ ''=<value> to your .env.local file (temporary)''"

text \<open>
  \<open>getSecret(secretName, options)\<close>. \<open>remote\<close> is the secret store at the time of the call,
  \<open>tCheck\<close> is \<open>Date.now()\<close> when the cache is read and \<open>tStore\<close> is \<open>Date.now()\<close> when the
  cache is written. The result is the thrown error or the secret, with the new state.
\<close>

definition getSecret ::
  "process_env \<Rightarrow> (string \<Rightarrow> remote_result) \<Rightarrow> int \<Rightarrow> int \<Rightarrow> string \<Rightarrow> secret_options
   \<Rightarrow> secrets_state \<Rightarrow> (secret_error + string) \<times> secrets_state" where
  "getSecret penv remote tCheck tStore secretName options st =
     (let environment = opt_environment options;
          useCache = (case opt_useCache options of Some b \<Rightarrow> b | None \<Rightarrow> True);
          projectId = (case opt_projectId options of Some p \<Rightarrow> p | None \<Rightarrow> getProjectId penv);
          formattedSecretName = formatSecretName penv secretName environment;
          cacheKey = projectId @ ''/'' @ formattedSecretName;
          cached = (if useCache
                    then (case secretsCache st cacheKey of
                            Some (v, ts) \<Rightarrow> (if tCheck - ts < CACHE_TIMEOUT then Some v else None)
                          | None \<Rightarrow> None)
                    else None)
      in case cached of
           Some v \<Rightarrow> (Inr v, st)
         | None \<Rightarrow>
             (if getEnvironment penv = Development \<and> truthy (penv secretName)
              then (Inr (orElse (penv secretName) []), st)
              else
                (let name = ''projects/'' @ projectId @ ''/secrets/'' @ formattedSecretName
                            @ ''/versions/latest'';
                     st1 = st\<lparr>remoteCalls := remoteCalls st @ [name]\<rparr>;
                     thrown = (\<lambda>e. if getEnvironment penv = Development
                                    then SecretError None
                                           (devHelpMessage formattedSecretName secretName)
                                    else e)
                 in case remote name of
                      SecretData secretValue \<Rightarrow>
                        (Inr secretValue,
                         if useCache
                         then st1\<lparr>secretsCache :=
                                    (secretsCache st1)(cacheKey \<mapsto> (secretValue, tStore))\<rparr>
                         else st1)
                    | NoData \<Rightarrow>
                        (Inl (thrown (SecretError None
                                (''Secret '' @ formattedSecretName @ '' has no data''))), st1)
                    | Rejection code message \<Rightarrow>
                        (Inl (thrown (SecretError (Some code) message)), st1))))"


section \<open>Generation workflow (hooks/useGenerateContent, utils/imageHandler)\<close>

subsection \<open>Data\<close>

datatype generation_state =
  Idle | Validating | SearchingImages | Generating | Formatting | Saving | Complete | Error

text \<open>\<open>GenerationProgress\<close>; \<open>generate\<close> never sets \<open>error\<close> or \<open>estimatedTimeRemaining\<close>,
  which are left out.\<close>

record generation_progress =
  p_state :: generation_state
  p_currentLanguage :: "string option"
  p_completedLanguages :: "string list"
  p_message :: "string option"

datatype tone = Professional | Casual | Friendly

datatype article_length = Short | Medium | Long

record image_settings =
  is_featuredImage :: bool
  is_imageKeywords :: string
  is_includeInlineImages :: bool

record form_data =
  fd_topic :: string
  fd_category :: string
  fd_keywords :: "string list"
  fd_languages :: "string list"
  fd_tone :: tone
  fd_length :: article_length
  fd_includeSeo :: bool
  fd_imageSettings :: image_settings

text \<open>\<open>UnsplashImage\<close>, with the fields the workflow reads; \<open>alt_description\<close> and
  \<open>description\<close> may be null.\<close>

record unsplash_image =
  ui_id :: string
  ui_urls_regular :: string
  ui_alt_description :: "string option"
  ui_description :: "string option"
  ui_user_name :: string
  ui_user_links_html :: string
  ui_links_html :: string

text \<open>
  The body of a response of the generation endpoint. It is \<open>any\<close> in the source: the
  objects \<open>title\<close>, \<open>excerpt\<close> and \<open>content\<close>, and \<open>metaTitle\<close> and \<open>metaDescription\<close> inside
  \<open>seo\<close>, may be missing (\<open>None\<close>: reading a key of a missing object throws a
  \<open>TypeError\<close>); \<open>seo\<close> and \<open>tags\<close> may be missing or falsy (\<open>None\<close>); \<open>tags\<close>, when truthy,
  is a list or a value that cannot be spread. A body that is \<open>null\<close> behaves as a body
  without \<open>title\<close>.
\<close>

record seo_content =
  lc_metaTitle :: "locale_string option"
  lc_metaDescription :: "locale_string option"

datatype tags_value = TagList "string list" | NotIterable

record lang_content =
  lc_title :: "locale_string option"
  lc_excerpt :: "locale_string option"
  lc_content :: "(string \<rightharpoonup> content_value) option"
  lc_seo :: "seo_content option"
  lc_tags :: "tags_value option"

text \<open>A thrown value: an \<open>Error\<close> with its name and message.\<close>

datatype js_error = JsError (errName: string) (errMessage: string)

text \<open>
  What \<open>await fetch(...)\<close> followed by \<open>response.json()\<close> can do: the fetch rejects, the
  response is not ok, the response is ok and its body parses, or the response is ok and
  parsing the body rejects.
\<close>

datatype 'a response = Rejected js_error | NotOk | OkJson 'a | OkBadJson js_error

text \<open>The requests sent, for the log of network calls.\<close>

datatype request =
    SearchRequest string string nat
  | GenerateRequest string form_data
  | ImageDownload string
  | AssetUpload string

text \<open>
  The collaborators: the host name of the page, the image search (by URL and query), the
  generation endpoint (by the number of the request, from 1, and the request body), the
  download of the image (whether the fetch resolves with an ok response), the asset store
  (the id of the new asset, or \<open>None\<close> when the upload throws) and the clock.
\<close>

record collaborators =
  hostname :: string
  searchImages :: "string \<Rightarrow> string \<Rightarrow> unsplash_image list option response"
  generateArticle :: "nat \<Rightarrow> form_data \<Rightarrow> lang_content response"
  downloadImage :: "string \<Rightarrow> bool"
  uploadAsset :: "string \<Rightarrow> string option"
  nowIso :: string

text \<open>The hook's state (\<open>state\<close>, \<open>progress\<close>, \<open>error\<close>) and the requests sent so far,
  oldest first.\<close>

record hook_state =
  h_state :: generation_state
  h_progress :: generation_progress
  h_error :: "string option"
  requests :: "request list"

record document_image =
  di_asset_ref :: string
  di_alt :: "string option"
  di_caption :: "string option"

text \<open>\<open>documentData\<close>, the value \<open>generate\<close> returns.\<close>

record document_data =
  d_title :: locale_string
  d_slug :: string
  d_excerpt :: locale_string
  d_featuredImage :: "document_image option"
  d_content :: "string \<rightharpoonup> block list"
  d_categories :: "string list"
  d_tags :: "string list"
  d_seo :: "seo option"
  d_publishedAt :: string
  d_featured :: bool

subsection \<open>Helpers\<close>

text \<open>\<open>toUpperCase\<close> on ASCII letters, as in the language codes; other code units are left
  as they are. It is used for the progress message only.\<close>

definition toUpperCase :: "string \<Rightarrow> string" where
  "toUpperCase s =
     map (\<lambda>c. let n = of_char c :: nat in
               if 97 \<le> n \<and> n \<le> 122 then char_of (n - 32) else c) s"

text \<open>\<open>Array.from(new Set(xs))\<close>: the elements in the order of their first occurrence.\<close>

definition arrayFromSet :: "string list \<Rightarrow> string list" where
  "arrayFromSet xs = foldl (\<lambda>acc x. if x \<in> set acc then acc else acc @ [x]) [] xs"

definition searchApiUrl :: "collaborators \<Rightarrow> string" where
  "searchApiUrl env =
     (if hostname env = ''lupito.sanity.studio''
      then ''https://lupito.pet/api/unsplash-search'' else ''/api/unsplash-search'')"

definition generateApiUrl :: "collaborators \<Rightarrow> string" where
  "generateApiUrl env =
     (if hostname env = ''lupito.sanity.studio''
      then ''https://lupito.pet/api/generate-article'' else ''/api/generate-article'')"

subsection \<open>uploadImageToSanity\<close>

definition uploadImageToSanity ::
  "collaborators \<Rightarrow> string \<Rightarrow> unsplash_image \<Rightarrow> hook_state \<Rightarrow> (js_error + string) \<times> hook_state"
  where
  "uploadImageToSanity env imageUrl unsplashData st =
     (let st1 = st\<lparr>requests := requests st @ [ImageDownload imageUrl]\<rparr> in
      if \<not> downloadImage env imageUrl
      then (Inl (JsError ''Error'' ''Failed to upload image''), st1)
      else
        (let filename = ''unsplash-'' @ ui_id unsplashData @ ''.jpg'';
             st2 = st1\<lparr>requests := requests st1 @ [AssetUpload filename]\<rparr>
         in case uploadAsset env filename of
              Some assetId \<Rightarrow> (Inr assetId, st2)
            | None \<Rightarrow> (Inl (JsError ''Error'' ''Failed to upload image''), st2)))"

subsection \<open>generate\<close>

text \<open>\<open>formData.imageSettings.imageKeywords || formData.topic\<close>.\<close>

definition imageQuery :: "form_data \<Rightarrow> string" where
  "imageQuery formData =
     (if is_imageKeywords (fd_imageSettings formData) \<noteq> []
      then is_imageKeywords (fd_imageSettings formData)
      else fd_topic formData)"

text \<open>Step 2, the search for the featured image: the thrown error, or the image chosen
  (\<open>None\<close> for no image).\<close>

definition searchFeaturedImage ::
  "collaborators \<Rightarrow> form_data \<Rightarrow> hook_state \<Rightarrow> (js_error + unsplash_image option) \<times> hook_state"
  where
  "searchFeaturedImage env formData st =
     (if \<not> is_featuredImage (fd_imageSettings formData) then (Inr None, st)
      else
        (let st1 = st\<lparr>h_state := SearchingImages,
                      h_progress := (h_progress st)\<lparr>p_state := SearchingImages\<rparr>\<rparr>;
             apiUrl = searchApiUrl env;
             st2 = st1\<lparr>requests := requests st1 @ [SearchRequest apiUrl (imageQuery formData) 1]\<rparr>
         in case searchImages env apiUrl (imageQuery formData) of
              Rejected e \<Rightarrow> (Inl e, st2)
            | NotOk \<Rightarrow> (Inr None, st2)
            | OkBadJson e \<Rightarrow> (Inl e, st2)
            | OkJson results \<Rightarrow>
                (case results of
                   Some (photo # others) \<Rightarrow> (Inr (Some photo), st2)
                 | _ \<Rightarrow> (Inr None, st2))))"

text \<open>The initial \<open>generatedContent\<close>: no localized value, the caller's keywords as tags,
  the descriptor of the featured image when there is one, an empty SEO block when SEO
  is asked for.\<close>

definition initialContent :: "form_data \<Rightarrow> unsplash_image option \<Rightarrow> generated_content" where
  "initialContent formData featuredImage =
     \<lparr>gc_title = Map.empty, gc_excerpt = Map.empty, gc_content = Map.empty,
      gc_featuredImage =
        map_option
          (\<lambda>photo. \<lparr>fi_url = ui_urls_regular photo,
                    fi_alt = orElse (ui_alt_description photo)
                               (''Image related to '' @ fd_topic formData),
                    fi_photographer = ui_user_name photo,
                    fi_photographerUrl = ui_user_links_html photo,
                    fi_unsplashId = ui_id photo\<rparr>)
          featuredImage,
      gc_seo = (if fd_includeSeo formData
                then Some \<lparr>metaTitle = Map.empty, metaDescription = Map.empty\<rparr>
                else None),
      gc_tags = fd_keywords formData\<rparr>"

text \<open>
  The statements of the per-language \<open>try\<close> after the response is read. Each either runs
  to its end or throws a \<open>TypeError\<close>, which the \<open>catch\<close> of the loop swallows; what was
  written to \<open>generatedContent\<close> before the throw stays written, and the statements after
  it are not run.
\<close>

datatype merge_result = Merged generated_content | Threw generated_content

fun contentOf :: "merge_result \<Rightarrow> generated_content" where
  "contentOf (Merged gc) = gc"
| "contentOf (Threw gc) = gc"

fun thenMerge :: "merge_result \<Rightarrow> (generated_content \<Rightarrow> merge_result) \<Rightarrow> merge_result" where
  "thenMerge (Merged gc) f = f gc"
| "thenMerge (Threw gc) f = Threw gc"

text \<open>Whether a merge ran to its end.\<close>

fun completed :: "merge_result \<Rightarrow> bool" where
  "completed (Merged gc) = True"
| "completed (Threw gc) = False"

text \<open>\<open>if (langContent.title[langKey]) generatedContent.title[langKey] = ...\<close>\<close>

definition mergeTitle :: "string \<Rightarrow> lang_content \<Rightarrow> generated_content \<Rightarrow> merge_result" where
  "mergeTitle lang langContent gc =
     (case lc_title langContent of
        None \<Rightarrow> Threw gc
      | Some title \<Rightarrow>
          Merged (if truthy (title lang)
                  then gc\<lparr>gc_title := (gc_title gc)(lang := title lang)\<rparr> else gc))"

text \<open>\<open>if (langContent.excerpt[langKey]) generatedContent.excerpt[langKey] = ...\<close>\<close>

definition mergeExcerpt :: "string \<Rightarrow> lang_content \<Rightarrow> generated_content \<Rightarrow> merge_result" where
  "mergeExcerpt lang langContent gc =
     (case lc_excerpt langContent of
        None \<Rightarrow> Threw gc
      | Some excerpt \<Rightarrow>
          Merged (if truthy (excerpt lang)
                  then gc\<lparr>gc_excerpt := (gc_excerpt gc)(lang := excerpt lang)\<rparr> else gc))"

text \<open>\<open>if (langContent.content[langKey]) generatedContent.content[langKey] = ...\<close>\<close>

definition mergeBody :: "string \<Rightarrow> lang_content \<Rightarrow> generated_content \<Rightarrow> merge_result" where
  "mergeBody lang langContent gc =
     (case lc_content langContent of
        None \<Rightarrow> Threw gc
      | Some body \<Rightarrow>
          Merged (if truthyContent (body lang)
                  then gc\<lparr>gc_content := (gc_content gc)(lang := body lang)\<rparr> else gc))"

text \<open>\<open>if (formData.includeSeo && langContent.seo) { ... }\<close>: the meta title is written
  before the meta description is read.\<close>

definition mergeSeo ::
  "form_data \<Rightarrow> string \<Rightarrow> lang_content \<Rightarrow> generated_content \<Rightarrow> merge_result" where
  "mergeSeo formData lang langContent gc =
     (if fd_includeSeo formData
      then (case lc_seo langContent of
              None \<Rightarrow> Merged gc
            | Some s \<Rightarrow>
                (case lc_metaTitle s of
                   None \<Rightarrow> Threw gc
                 | Some mt \<Rightarrow>
                     (let g = (if truthy (mt lang)
                               then gc\<lparr>gc_seo := map_option
                                      (\<lambda>t. t\<lparr>metaTitle := (metaTitle t)(lang := mt lang)\<rparr>)
                                      (gc_seo gc)\<rparr>
                               else gc)
                      in (case lc_metaDescription s of
                            None \<Rightarrow> Threw g
                          | Some md \<Rightarrow>
                              Merged (if truthy (md lang)
                                      then g\<lparr>gc_seo := map_option
                                             (\<lambda>t. t\<lparr>metaDescription :=
                                                     (metaDescription t)(lang := md lang)\<rparr>)
                                             (gc_seo g)\<rparr>
                                      else g)))))
      else Merged gc)"

text \<open>\<open>if (completedLanguages === 1 && langContent.tags) { ... }\<close>; \<open>completedLanguages\<close>
  is the loop's counter, already incremented for this language.\<close>

definition mergeTags :: "nat \<Rightarrow> lang_content \<Rightarrow> generated_content \<Rightarrow> merge_result" where
  "mergeTags completedLanguages langContent gc =
     (if completedLanguages = 1
      then (case lc_tags langContent of
              None \<Rightarrow> Merged gc
            | Some (TagList tags) \<Rightarrow> Merged (gc\<lparr>gc_tags := arrayFromSet (gc_tags gc @ tags)\<rparr>)
            | Some NotIterable \<Rightarrow> Threw gc)
      else Merged gc)"

text \<open>The merge of one language's content into \<open>generatedContent\<close>: title, excerpt,
  content, SEO and tags, in this order.\<close>

definition mergeLanguage ::
  "form_data \<Rightarrow> string \<Rightarrow> nat \<Rightarrow> lang_content \<Rightarrow> generated_content \<Rightarrow> merge_result" where
  "mergeLanguage formData lang completedLanguages langContent gc =
     thenMerge
       (thenMerge
          (thenMerge
             (thenMerge (mergeTitle lang langContent gc) (mergeExcerpt lang langContent))
             (mergeBody lang langContent))
          (mergeSeo formData lang langContent))
       (mergeTags completedLanguages langContent)"

text \<open>The variables of the loop over the languages.\<close>

record loop_state =
  completedLanguages :: nat
  generatedContent :: generated_content
  hook :: hook_state

text \<open>One iteration of the loop: the counter goes up, the progress is set, the request
  is sent, and the content is merged when the response is ok, as far as the merge gets; a
  response that is not ok and a thrown error skip the language.\<close>

definition generateLanguage ::
  "collaborators \<Rightarrow> form_data \<Rightarrow> nat \<Rightarrow> loop_state \<Rightarrow> string \<Rightarrow> loop_state" where
  "generateLanguage env formData totalLanguages ls lang =
     (let n = completedLanguages ls + 1;
          languageName = toUpperCase lang;
          body = formData\<lparr>fd_languages := [lang]\<rparr>;
          st1 = (hook ls)
                  \<lparr>h_progress :=
                     \<lparr>p_state = Generating, p_currentLanguage = Some lang,
                      p_completedLanguages = [],
                      p_message = Some (''Generating '' @ languageName @ '' content (''
                                        @ showNat n @ ''/'' @ showNat totalLanguages @ '')...'')\<rparr>,
                   requests := requests (hook ls) @ [GenerateRequest (generateApiUrl env) body]\<rparr>
      in case generateArticle env n body of
           OkJson langContent \<Rightarrow>
             ls\<lparr>completedLanguages := n,
                generatedContent :=
                  contentOf (mergeLanguage formData lang n langContent (generatedContent ls)),
                hook := st1\<rparr>
         | _ \<Rightarrow> ls\<lparr>completedLanguages := n, hook := st1\<rparr>)"

definition validationMessage :: string where
  "validationMessage = ''Topic and at least one language are required''"

definition timeoutMessage :: string where
  "timeoutMessage = ''Generation timed out. The request took too long. Try with a shorter article or simpler topic.''"

text \<open>Step 5, the upload of the featured image: the asset id, \<open>None\<close> when there is no
  image or the upload throws.\<close>

definition uploadFeaturedImage ::
  "collaborators \<Rightarrow> unsplash_image option \<Rightarrow> generated_content \<Rightarrow> hook_state
   \<Rightarrow> string option \<times> hook_state" where
  "uploadFeaturedImage env featuredImage content st =
     (case (featuredImage, gc_featuredImage content) of
        (Some photo, Some fi) \<Rightarrow>
          (case uploadImageToSanity env (fi_url fi) photo st of
             (Inr assetId, st') \<Rightarrow> (Some assetId, st')
           | (Inl uploadError, st') \<Rightarrow> (None, st'))
      | _ \<Rightarrow> (None, st))"

text \<open>Step 6, \<open>documentData\<close>.\<close>

definition prepareDocument ::
  "collaborators \<Rightarrow> form_data \<Rightarrow> generated_content \<Rightarrow> formatted_content \<Rightarrow> string option
   \<Rightarrow> document_data" where
  "prepareDocument env formData content formattedContent imageAssetId =
     \<lparr>d_title = f_title formattedContent,
      d_slug = generateSlug (slugTitle (f_title formattedContent)),
      d_excerpt = f_excerpt formattedContent,
      d_featuredImage =
        (if truthy imageAssetId
         then Some \<lparr>di_asset_ref = orElse imageAssetId [],
                    di_alt = map_option fi_alt (gc_featuredImage content),
                    di_caption = map_option (\<lambda>fi. ''Photo by '' @ fi_photographer fi)
                                   (gc_featuredImage content)\<rparr>
         else None),
      d_content = f_content formattedContent,
      d_categories = (if fd_category formData \<noteq> [] then [fd_category formData] else []),
      d_tags = gc_tags content,
      d_seo = gc_seo content,
      d_publishedAt = nowIso env,
      d_featured = False\<rparr>"

text \<open>Step 3, the loop over the languages, from the initial content.\<close>

definition generateLanguages ::
  "collaborators \<Rightarrow> form_data \<Rightarrow> unsplash_image option \<Rightarrow> hook_state \<Rightarrow> loop_state" where
  "generateLanguages env formData featuredImage st =
     foldl (generateLanguage env formData (length (fd_languages formData)))
       \<lparr>completedLanguages = 0, generatedContent = initialContent formData featuredImage,
        hook = st\<rparr>
       (fd_languages formData)"

text \<open>The body of the \<open>try\<close>: the thrown error or \<open>documentData\<close>, with the hook's state.\<close>

definition generateBody ::
  "collaborators \<Rightarrow> form_data \<Rightarrow> hook_state \<Rightarrow> (js_error + document_data) \<times> hook_state" where
  "generateBody env formData st =
     (if fd_topic formData = [] \<or> fd_languages formData = []
      then (Inl (JsError ''Error'' validationMessage), st)
      else
        (case searchFeaturedImage env formData st of
           (Inl e, st2) \<Rightarrow> (Inl e, st2)
         | (Inr featuredImage, st2) \<Rightarrow>
             (let ls = generateLanguages env formData featuredImage (st2\<lparr>h_state := Generating\<rparr>);
                  content = generatedContent ls;
                  st4 = (hook ls)\<lparr>h_state := Formatting,
                                 h_progress := (h_progress (hook ls))\<lparr>p_state := Formatting\<rparr>\<rparr>;
                  formattedContent = formatContentForSanity content;
                  uploaded = uploadFeaturedImage env featuredImage content st4;
                  st6 = (snd uploaded)\<lparr>h_state := Saving,
                                       h_progress := (h_progress (snd uploaded))\<lparr>p_state := Saving\<rparr>\<rparr>;
                  documentData =
                    prepareDocument env formData content formattedContent (fst uploaded);
                  st7 = st6\<lparr>h_state := Complete,
                            h_progress :=
                              \<lparr>p_state = Complete, p_currentLanguage = None,
                               p_completedLanguages = fd_languages formData,
                               p_message = None\<rparr>\<rparr>
              in (Inr documentData, st7))))"

text \<open>
  \<open>generate(formData, documentId)\<close>: the state is set to \<open>validating\<close>, the body runs, and
  the \<open>catch\<close> sets the state to \<open>error\<close>, records the message and throws the error again.
\<close>

definition generate ::
  "collaborators \<Rightarrow> form_data \<Rightarrow> string \<Rightarrow> hook_state \<Rightarrow> (js_error + document_data) \<times> hook_state"
  where
  "generate env formData documentId st =
     (let st1 = st\<lparr>h_state := Validating, h_error := None,
                   h_progress := \<lparr>p_state = Validating, p_currentLanguage = None,
                                  p_completedLanguages = [], p_message = None\<rparr>\<rparr>
      in case generateBody env formData st1 of
           (Inr documentData, st') \<Rightarrow> (Inr documentData, st')
         | (Inl err, st') \<Rightarrow>
             (Inl err,
              st'\<lparr>h_state := Error,
                  h_error := Some (if errName err = ''AbortError'' then timeoutMessage
                                   else errMessage err),
                  h_progress := (h_progress st')\<lparr>p_state := Error\<rparr>\<rparr>))"


subsection \<open>Outcomes of the requests\<close>

text \<open>Whether step 2 throws: the search is asked for and the fetch rejects or the body
  of an ok response does not parse.\<close>

definition imageSearchThrows :: "collaborators \<Rightarrow> form_data \<Rightarrow> bool" where
  "imageSearchThrows env formData =
     (is_featuredImage (fd_imageSettings formData)
      \<and> (case searchImages env (searchApiUrl env) (imageQuery formData) of
            Rejected e \<Rightarrow> True | OkBadJson e \<Rightarrow> True | _ \<Rightarrow> False))"

text \<open>The languages whose request gets an ok response with a body, in the order of the
  requests; \<open>k\<close> is the number of requests sent before.\<close>

fun succeededFrom :: "collaborators \<Rightarrow> form_data \<Rightarrow> nat \<Rightarrow> string list \<Rightarrow> string list" where
  "succeededFrom env formData k [] = []"
| "succeededFrom env formData k (lang # rest) =
     (case generateArticle env (Suc k) (formData\<lparr>fd_languages := [lang]\<rparr>) of
        OkJson langContent \<Rightarrow> lang # succeededFrom env formData (Suc k) rest
      | _ \<Rightarrow> succeededFrom env formData (Suc k) rest)"

definition succeededLanguages :: "collaborators \<Rightarrow> form_data \<Rightarrow> string list" where
  "succeededLanguages env formData = succeededFrom env formData 0 (fd_languages formData)"

text \<open>Whether the merge of a response runs as far as the tag merge: no statement before it
  throws.\<close>

definition mergeReachesTags :: "form_data \<Rightarrow> lang_content \<Rightarrow> bool" where
  "mergeReachesTags formData langContent =
     (lc_title langContent \<noteq> None \<and> lc_excerpt langContent \<noteq> None
      \<and> lc_content langContent \<noteq> None
      \<and> (if fd_includeSeo formData
         then (case lc_seo langContent of
                 None \<Rightarrow> True
               | Some s \<Rightarrow> lc_metaTitle s \<noteq> None \<and> lc_metaDescription s \<noteq> None)
         else True))"

text \<open>The tags of the first language whose request succeeds, and the tag list as the
  specification words it: the caller's keywords merged and de-duplicated with them.\<close>

fun spec_firstSuccessfulTags ::
  "collaborators \<Rightarrow> form_data \<Rightarrow> nat \<Rightarrow> string list \<Rightarrow> string list option" where
  "spec_firstSuccessfulTags env formData k [] = None"
| "spec_firstSuccessfulTags env formData k (lang # rest) =
     (case generateArticle env (Suc k) (formData\<lparr>fd_languages := [lang]\<rparr>) of
        OkJson langContent \<Rightarrow>
          (case lc_tags langContent of Some (TagList tags) \<Rightarrow> Some tags | _ \<Rightarrow> None)
      | _ \<Rightarrow> spec_firstSuccessfulTags env formData (Suc k) rest)"

definition spec_mergedTags :: "collaborators \<Rightarrow> form_data \<Rightarrow> string list" where
  "spec_mergedTags env formData =
     (case spec_firstSuccessfulTags env formData 0 (fd_languages formData) of
        Some tags \<Rightarrow> arrayFromSet (fd_keywords formData @ tags)
      | None \<Rightarrow> arrayFromSet (fd_keywords formData))"

subsection \<open>Sample runs\<close>

definition idleState :: hook_state where
  "idleState =
     \<lparr>h_state = Idle,
      h_progress = \<lparr>p_state = Idle, p_currentLanguage = None, p_completedLanguages = [],
                    p_message = None\<rparr>,
      h_error = None, requests = []\<rparr>"

text \<open>A request for Romanian and English about the topic \<open>x\<close>, with the keyword \<open>pet\<close> and
  a featured image.\<close>

definition sampleForm :: form_data where
  "sampleForm =
     \<lparr>fd_topic = ''x'', fd_category = [], fd_keywords = [''pet''],
      fd_languages = [''ro'', ''en''], fd_tone = Friendly, fd_length = Short,
      fd_includeSeo = False,
      fd_imageSettings = \<lparr>is_featuredImage = True, is_imageKeywords = [],
                          is_includeInlineImages = False\<rparr>\<rparr>"

text \<open>A well-formed body with English and Polish entries, and a body with tags but no
  \<open>excerpt\<close> object.\<close>

definition englishContent :: lang_content where
  "englishContent =
     \<lparr>lc_title = Some [''en'' \<mapsto> ''Happy dog'', ''pl'' \<mapsto> ''Szczesliwy pies''],
      lc_excerpt = Some [''en'' \<mapsto> ''About dogs'', ''pl'' \<mapsto> ''O psach''],
      lc_content = Some [''en'' \<mapsto> MarkdownText ''# Dogs'', ''pl'' \<mapsto> MarkdownText ''# Psy''],
      lc_seo = None,
      lc_tags = Some (TagList [''dog'', ''pet''])\<rparr>"

definition noExcerptContent :: lang_content where
  "noExcerptContent = englishContent\<lparr>lc_excerpt := None\<rparr>"

text \<open>The image search answers with a response that is not ok; the first generation
  request (Romanian) is refused and the second (English) succeeds.\<close>

definition partialEnv :: collaborators where
  "partialEnv =
     \<lparr>hostname = ''localhost'',
      searchImages = (\<lambda>url query. NotOk),
      generateArticle = (\<lambda>n body. if n = 2 then OkJson englishContent else NotOk),
      downloadImage = (\<lambda>url. False), uploadAsset = (\<lambda>filename. None),
      nowIso = ''2025-01-01T00:00:00.000Z''\<rparr>"

text \<open>Every generation request succeeds; the fetch of the image search rejects, as it
  does when the network is down.\<close>

definition offlineSearchEnv :: collaborators where
  "offlineSearchEnv =
     \<lparr>hostname = ''localhost'',
      searchImages = (\<lambda>url query. Rejected (JsError ''TypeError'' ''Failed to fetch'')),
      generateArticle = (\<lambda>n body. OkJson englishContent),
      downloadImage = (\<lambda>url. False), uploadAsset = (\<lambda>filename. None),
      nowIso = ''2025-01-01T00:00:00.000Z''\<rparr>"

text \<open>A request for English, Romanian and Polish; the second request is refused and the
  others succeed. And a first response with tags but no \<open>excerpt\<close> object.\<close>

definition threeLanguageForm :: form_data where
  "threeLanguageForm = sampleForm\<lparr>fd_languages := [''en'', ''ro'', ''pl'']\<rparr>"

definition middleFailsEnv :: collaborators where
  "middleFailsEnv =
     partialEnv\<lparr>generateArticle := (\<lambda>n body. if n = 2 then NotOk else OkJson englishContent)\<rparr>"

definition noExcerptEnv :: collaborators where
  "noExcerptEnv =
     partialEnv\<lparr>generateArticle := (\<lambda>n body. if n = 1 then OkJson noExcerptContent else NotOk)\<rparr>"


section \<open>Sample inputs\<close>

text \<open>Concrete inputs, on which the properties below are evaluated.\<close>

definition markdownSample :: generated_content where
  "markdownSample =
     \<lparr>gc_title = Map.empty, gc_excerpt = Map.empty,
      gc_content = [''ro'' \<mapsto> MarkdownText (''# Title'' @ [newline] @ ''   '')],
      gc_featuredImage = None, gc_seo = None, gc_tags = []\<rparr>"

definition sixBlocks :: "block store" where
  "sixBlocks =
     \<lparr>cells = (\<lambda>r. [])
        (0 := [Block H1 [Span ''a'' None], Block Normal [Span ''b'' None],
               Block Normal [Span ''c'' None], Block H2 [Span ''d'' None],
               Block Normal [Span ''e'' None], Block Normal [Span ''f'' None]]),
      nextRef = 1\<rparr>"

definition twoBlocks :: "block store" where
  "twoBlocks =
     \<lparr>cells = (\<lambda>r. []) (0 := [Block H1 [Span ''a'' None], Block Normal [Span ''b'' None]]),
      nextRef = 1\<rparr>"

definition prodEnv :: process_env where
  "prodEnv = [''NODE_ENV'' \<mapsto> ''production'']"

definition defaultOptions :: secret_options where
  "defaultOptions = \<lparr>opt_environment = None, opt_useCache = None, opt_projectId = Some ''p1''\<rparr>"

definition noCacheOptions :: secret_options where
  "noCacheOptions = \<lparr>opt_environment = None, opt_useCache = Some False, opt_projectId = Some ''p1''\<rparr>"

definition emptyState :: secrets_state where
  "emptyState = \<lparr>secretsCache = Map.empty, remoteCalls = []\<rparr>"

definition fetchedState :: secrets_state where
  "fetchedState = \<lparr>secretsCache = [''p1/API_KEY_PROD'' \<mapsto> (''s3cr3t'', 1200)],
                   remoteCalls = [''projects/p1/secrets/API_KEY_PROD/versions/latest'']\<rparr>"

definition cachedState :: secrets_state where
  "cachedState = \<lparr>secretsCache = [''p1/API_KEY_PROD'' \<mapsto> (''s3cr3t'', 1200)], remoteCalls = []\<rparr>"


section \<open>Properties of the content formatter\<close>

subsection \<open>Lines are formatted one by one\<close>

lemma splitOn_append:
  "splitOn sep cur (a @ sep # b) = splitOn sep cur a @ splitOn sep [] b"
  by (induction a arbitrary: cur) auto

lemma splitOn_single:
  "sep \<notin> set l \<Longrightarrow> splitOn sep cur l = [rev cur @ l]"
  by (induction l arbitrary: cur) auto

lemma splitOn_pieces:
  "list_all P cur \<Longrightarrow> list_all P s \<Longrightarrow> list_all (list_all P) (splitOn sep cur s)"
  by (induction s arbitrary: cur) auto

lemma pushLine_append: "pushLine acc l = acc @ pushLine [] l"
  by (simp add: pushLine_def)

lemma foldl_pushLine: "foldl pushLine acc ls = acc @ concat (map (pushLine []) ls)"
proof (induction ls arbitrary: acc)
  case Nil
  then show ?case by simp
next
  case (Cons l ls)
  show ?case
    by (simp add: Cons.IH [of "pushLine acc l"]) (subst pushLine_append, simp)
qed

lemma formatBlockContent_concat:
  "formatBlockContent md = concat (map (pushLine []) (splitOn newline [] md))"
  by (simp add: formatBlockContent_def foldl_pushLine)

lemma formatBlockContent_join:
  "formatBlockContent (a @ newline # b) = formatBlockContent a @ formatBlockContent b"
  by (simp add: formatBlockContent_concat splitOn_append)

lemma dropWhile_all: "(\<forall>x \<in> set (dropWhile P s). P x) \<longleftrightarrow> (\<forall>x \<in> set s. P x)"
  by (induction s) auto

lemma trim_empty_iff: "trim s = [] \<longleftrightarrow> (\<forall>c \<in> set s. isWhiteSpace c)"
  by (simp add: trim_def dropWhile_eq_Nil_conv dropWhile_all)

lemma formatBlockContent_blank:
  assumes "trim l = []"
  shows "formatBlockContent l = []"
proof -
  have "list_all (list_all isWhiteSpace) (splitOn newline [] l)"
    using assms by (intro splitOn_pieces) (simp_all add: trim_empty_iff list_all_iff)
  then have "\<forall>p \<in> set (splitOn newline [] l). trim p = []"
    by (simp add: trim_empty_iff list_all_iff)
  then have "\<forall>p \<in> set (splitOn newline [] l). pushLine [] p = []"
    by (simp add: pushLine_def)
  then show ?thesis
    by (simp add: formatBlockContent_concat)
qed

lemma formatBlockContent_one_line:
  assumes "newline \<notin> set l" and "trim l \<noteq> []"
  shows "length (formatBlockContent l) = 1"
  using assms by (simp add: formatBlockContent_concat splitOn_single pushLine_def)

lemma formatBlockContent_heading:
  "formatBlockContent ''# Title'' = [Block H1 [Span ''Title'' None]]"
  by code_simp

lemma formatBlockContent_emphasis:
  "formatBlockContent ''**bold** and *italic*'' =
     [Block Normal [Span ''bold'' (Some [Strong]), Span '' and '' None,
                    Span ''italic'' (Some [Em])]]"
  by code_simp

subsection \<open>What formatContentForSanity keeps\<close>

lemma f_content_formatLanguage:
  "f_content (formatLanguage c fc lang) =
     (case gc_content c lang of
        Some (BlockArray bs) \<Rightarrow> (f_content fc)(lang \<mapsto> bs)
      | Some (MarkdownText md) \<Rightarrow>
          (if md \<noteq> [] then (f_content fc)(lang \<mapsto> formatBlockContent md) else f_content fc)
      | _ \<Rightarrow> f_content fc)"
  by (simp add: formatLanguage_def truthyContent_def Let_def
           split: option.splits content_value.splits)

lemma f_title_formatLanguage:
  "f_title (formatLanguage c fc lang) =
     (if truthy (gc_title c lang) then (f_title fc)(lang := gc_title c lang) else f_title fc)"
  by (simp add: formatLanguage_def Let_def split: option.splits content_value.splits)

lemma f_excerpt_formatLanguage:
  "f_excerpt (formatLanguage c fc lang) =
     (if truthy (gc_excerpt c lang) then (f_excerpt fc)(lang := gc_excerpt c lang)
      else f_excerpt fc)"
  by (simp add: formatLanguage_def Let_def split: option.splits content_value.splits)

lemma f_content_foldl:
  "f_content (foldl (formatLanguage c) fc ls) l =
     (if l \<in> set ls then
        (case gc_content c l of
           Some (BlockArray bs) \<Rightarrow> Some bs
         | Some (MarkdownText md) \<Rightarrow>
             (if md \<noteq> [] then Some (formatBlockContent md) else f_content fc l)
         | _ \<Rightarrow> f_content fc l)
      else f_content fc l)"
  by (induction ls arbitrary: fc)
     (auto simp: f_content_formatLanguage split: option.splits content_value.splits)

lemma f_title_foldl:
  "f_title (foldl (formatLanguage c) fc ls) l =
     (if l \<in> set ls \<and> truthy (gc_title c l) then gc_title c l else f_title fc l)"
  by (induction ls arbitrary: fc) (auto simp: f_title_formatLanguage)

lemma f_excerpt_foldl:
  "f_excerpt (foldl (formatLanguage c) fc ls) l =
     (if l \<in> set ls \<and> truthy (gc_excerpt c l) then gc_excerpt c l else f_excerpt fc l)"
  by (induction ls arbitrary: fc) (auto simp: f_excerpt_formatLanguage)

lemma formatContentForSanity_markdown:
  "l \<in> set supportedLanguages \<Longrightarrow> gc_content c l = Some (MarkdownText md) \<Longrightarrow> md \<noteq> [] \<Longrightarrow>
   f_content (formatContentForSanity c) l = Some (formatBlockContent md)"
  by (simp add: formatContentForSanity_def f_content_foldl)

text \<open>
  Claim C4. The formatter handles the lines of a markdown text one by one: the blocks of
  two texts joined by a line break are the blocks of the first followed by the blocks of
  the second, a blank text gives no block, and a non-blank line gives exactly one block.
  The line \<open># Title\<close> becomes one \<open>h1\<close> block whose only child is the span \<open>Title\<close> without
  marks; the line \<open>**bold** and *italic*\<close> becomes one \<open>normal\<close> block with the three spans
  \<open>bold\<close> (strong), \<open> and \<close> (no marks) and \<open>italic\<close> (em), in this order.
  \<open>formatContentForSanity\<close> formats a markdown body of a supported language this way.
\<close>

theorem formatBlockContent_line_by_line:
  "formatBlockContent (a @ newline # b) = formatBlockContent a @ formatBlockContent b
   \<and> (trim l = [] \<longrightarrow> formatBlockContent l = [])
   \<and> (newline \<notin> set l \<and> trim l \<noteq> [] \<longrightarrow> length (formatBlockContent l) = 1)
   \<and> formatBlockContent ''# Title'' = [Block H1 [Span ''Title'' None]]
   \<and> formatBlockContent ''**bold** and *italic*'' =
       [Block Normal [Span ''bold'' (Some [Strong]), Span '' and '' None,
                      Span ''italic'' (Some [Em])]]
   \<and> (lang \<in> set supportedLanguages \<and> gc_content c lang = Some (MarkdownText md) \<and> md \<noteq> []
        \<longrightarrow> f_content (formatContentForSanity c) lang = Some (formatBlockContent md))"
  using formatBlockContent_join [of a b] formatBlockContent_blank [of l]
    formatBlockContent_one_line [of l] formatBlockContent_heading
    formatBlockContent_emphasis formatContentForSanity_markdown [of lang c md]
  by blast

theorem formatBlockContent_line_by_line_witness:
  "trim ''   '' = []
   \<and> newline \<notin> set ''# Title'' \<and> trim ''# Title'' \<noteq> []
   \<and> ''ro'' \<in> set supportedLanguages
   \<and> gc_content markdownSample ''ro'' = Some (MarkdownText (''# Title'' @ [newline] @ ''   ''))
   \<and> formatBlockContent ''   '' = []
   \<and> length (formatBlockContent ''# Title'') = 1
   \<and> f_content (formatContentForSanity markdownSample) ''ro'' =
       Some ([Block H1 [Span ''Title'' None]] @ [])"
proof -
  have blank: "trim ''   '' = []"
    by (simp add: trim_def isWhiteSpace_def)
  have line: "newline \<notin> set ''# Title'' \<and> trim ''# Title'' \<noteq> []"
    by (simp add: trim_def isWhiteSpace_def newline_def)
  have lang: "''ro'' \<in> set supportedLanguages"
    by (simp add: supportedLanguages_def)
  have body: "gc_content markdownSample ''ro''
                = Some (MarkdownText (''# Title'' @ [newline] @ ''   ''))"
    by (simp add: markdownSample_def)
  have nonempty: "''# Title'' @ [newline] @ ''   '' \<noteq> []"
    by simp
  note blankCase =
    formatBlockContent_line_by_line
      [of "''# Title''" "''   ''" "''   ''" "''ro''" markdownSample
          "''# Title'' @ [newline] @ ''   ''"]
  note lineCase =
    formatBlockContent_line_by_line
      [of "''# Title''" "''   ''" "''# Title''" "''ro''" markdownSample
          "''# Title'' @ [newline] @ ''   ''"]
  have b0: "formatBlockContent ''   '' = []"
    using blankCase blank by blast
  have b1: "length (formatBlockContent ''# Title'') = 1"
    using lineCase line by blast
  have joined: "formatBlockContent (''# Title'' @ newline # ''   '')
                  = formatBlockContent ''# Title'' @ formatBlockContent ''   ''"
    using blankCase by blast
  have head: "formatBlockContent ''# Title'' = [Block H1 [Span ''Title'' None]]"
    using blankCase by blast
  have "f_content (formatContentForSanity markdownSample) ''ro''
          = Some (formatBlockContent (''# Title'' @ [newline] @ ''   ''))"
    using blankCase lang body nonempty by blast
  then have "f_content (formatContentForSanity markdownSample) ''ro''
          = Some ([Block H1 [Span ''Title'' None]] @ [])"
    using joined head b0 by simp
  then show ?thesis
    using blank line lang body b0 b1 by blast
qed

subsection \<open>Image placeholders\<close>

lemma length_spliceInsert: "length (spliceInsert start x xs) = Suc (length xs)"
  by (simp add: spliceInsert_def Let_def)

lemma subseq_spliceInsert: "subseq xs (spliceInsert start x xs)"
proof -
  have "subseq (take k xs @ drop k xs) (take k xs @ [x] @ drop k xs)" for k
    by (intro list_emb_append_mono subseq_order.order_refl) (simp add: subseq_Cons')
  then show ?thesis
    by (simp add: spliceInsert_def Let_def)
qed

lemma insertPlaceholders_other:
  "a \<noteq> r \<Longrightarrow> cells (insertPlaceholders r count ps s) a = cells s a"
  by (induction ps arbitrary: s) (auto simp: spliceAt_def)

lemma insertPlaceholders_length:
  "length (cells (insertPlaceholders r count ps s) r) = length (cells s r) + length ps"
  by (induction ps arbitrary: s) (auto simp: spliceAt_def length_spliceInsert)

lemma insertPlaceholders_subseq:
  "subseq (cells s r) (cells (insertPlaceholders r count ps s) r)"
proof (induction ps arbitrary: s)
  case Nil
  then show ?case by simp
next
  case (Cons p ps)
  obtain pos index where p: "p = (pos, index)" by (cases p)
  let ?s1 = "spliceAt r pos (placeholder (count - int index)) s"
  have "subseq (cells s r) (cells ?s1 r)"
    by (simp add: spliceAt_def subseq_spliceInsert)
  moreover have "subseq (cells ?s1 r) (cells (insertPlaceholders r count ps ?s1) r)"
    by (rule Cons.IH)
  ultimately have "subseq (cells s r) (cells (insertPlaceholders r count ps ?s1) r)"
    by (rule subseq_order.order_trans)
  then show ?case
    by (simp add: p)
qed

lemma length_placeholderPositions:
  "length (placeholderPositions spacing count) = nat count"
  by (simp add: placeholderPositions_def)

lemma addImagePlaceholders_short:
  "length (cells s blocks) < 3 \<Longrightarrow> addImagePlaceholders blocks count s = (blocks, s)"
  by (simp add: addImagePlaceholders_def)

lemma addImagePlaceholders_long:
  "3 \<le> length (cells s blocks) \<Longrightarrow>
   addImagePlaceholders blocks count s =
     (nextRef s,
      insertPlaceholders (nextRef s) count
        (zip (rev (placeholderPositions (int (length (cells s blocks)) div (count + 1)) count))
             [0 ..< nat count])
        (s\<lparr>cells := (cells s)(nextRef s := cells s blocks), nextRef := Suc (nextRef s)\<rparr>))"
  by (simp add: addImagePlaceholders_def alloc_def Let_def length_placeholderPositions)

lemma addImagePlaceholders_six:
  "cells s blocks = [b0, b1, b2, b3, b4, b5] \<Longrightarrow>
   cells (snd (addImagePlaceholders blocks 2 s)) (fst (addImagePlaceholders blocks 2 s))
     = [b0, b1, placeholder 1, b2, b3, placeholder 2, b4, b5]"
  by (simp add: addImagePlaceholders_long placeholderPositions_def upto.simps
        numeral_2_eq_2 spliceAt_def spliceInsert_def)

lemma placeholderPositions_six:
  "placeholderPositions (int (length [b0, b1, b2, b3, b4, b5 :: block]) div (2 + 1)) 2 = [2, 4]"
  by (simp add: placeholderPositions_def upto.simps)

text \<open>
  Claim C5. For an array of six blocks and a count of 2 the positions are
  \<open>floor(6 / 3) * 1 = 2\<close> and \<open>floor(6 / 3) * 2 = 4\<close>; the placeholders are inserted at
  position 4 first (numbered 2) and at position 2 next (numbered 1), so that the result is
  the first two blocks, placeholder 1, the next two blocks, placeholder 2 and the last two
  blocks: the placeholders stand at offsets 2 and 4 of the original content. For an array
  of fewer than three blocks the call returns its argument and changes nothing, whatever
  the count.
\<close>

theorem addImagePlaceholders_six_and_short:
  "(cells s blocks = [b0, b1, b2, b3, b4, b5] \<longrightarrow>
      placeholderPositions (int (length (cells s blocks)) div (2 + 1)) 2 = [2, 4]
    \<and> zip (rev (placeholderPositions (int (length (cells s blocks)) div (2 + 1)) 2))
          [0 ..< 2] = [(4, 0), (2, 1)]
    \<and> cells (snd (addImagePlaceholders blocks 2 s)) (fst (addImagePlaceholders blocks 2 s))
        = [b0, b1, placeholder 1, b2, b3, placeholder 2, b4, b5]
    \<and> placeholder 1 = Image ''[Placeholder 1: Add relevant image here]''
                             ''Replace with appropriate image''
    \<and> placeholder 2 = Image ''[Placeholder 2: Add relevant image here]''
                             ''Replace with appropriate image'')
   \<and> (length (cells s blocks) < 3 \<longrightarrow> addImagePlaceholders blocks count s = (blocks, s))"
proof -
  have p1: "placeholder 1 = Image ''[Placeholder 1: Add relevant image here]''
                                  ''Replace with appropriate image''"
    by code_simp
  have p2: "placeholder 2 = Image ''[Placeholder 2: Add relevant image here]''
                                  ''Replace with appropriate image''"
    by code_simp
  have order: "zip (rev [2, 4 :: int]) [0 ..< 2] = [(4, 0), (2, 1)]"
    by (simp add: numeral_2_eq_2)
  show ?thesis
    using addImagePlaceholders_six [of s blocks b0 b1 b2 b3 b4 b5]
      placeholderPositions_six [of b0 b1 b2 b3 b4 b5] order p1 p2
      addImagePlaceholders_short [of s blocks count]
    by (auto simp del: upt_Suc)
qed

theorem addImagePlaceholders_six_and_short_witness:
  "cells sixBlocks 0 =
     [Block H1 [Span ''a'' None], Block Normal [Span ''b'' None],
      Block Normal [Span ''c'' None], Block H2 [Span ''d'' None],
      Block Normal [Span ''e'' None], Block Normal [Span ''f'' None]]
   \<and> cells (snd (addImagePlaceholders 0 2 sixBlocks)) (fst (addImagePlaceholders 0 2 sixBlocks))
       = [Block H1 [Span ''a'' None], Block Normal [Span ''b'' None],
          Image ''[Placeholder 1: Add relevant image here]'' ''Replace with appropriate image'',
          Block Normal [Span ''c'' None], Block H2 [Span ''d'' None],
          Image ''[Placeholder 2: Add relevant image here]'' ''Replace with appropriate image'',
          Block Normal [Span ''e'' None], Block Normal [Span ''f'' None]]
   \<and> length (cells twoBlocks 0) < 3
   \<and> addImagePlaceholders 0 7 twoBlocks = (0, twoBlocks)"
proof -
  have six: "cells sixBlocks 0 =
     [Block H1 [Span ''a'' None], Block Normal [Span ''b'' None],
      Block Normal [Span ''c'' None], Block H2 [Span ''d'' None],
      Block Normal [Span ''e'' None], Block Normal [Span ''f'' None]]"
    by (simp add: sixBlocks_def)
  have two: "length (cells twoBlocks 0) < 3"
    by (simp add: twoBlocks_def)
  note long =
    addImagePlaceholders_six_and_short
      [of sixBlocks 0 "Block H1 [Span ''a'' None]" "Block Normal [Span ''b'' None]"
          "Block Normal [Span ''c'' None]" "Block H2 [Span ''d'' None]"
          "Block Normal [Span ''e'' None]" "Block Normal [Span ''f'' None]" 7]
  note short =
    addImagePlaceholders_six_and_short
      [of twoBlocks 0 "Block H1 [Span ''a'' None]" "Block Normal [Span ''b'' None]"
          "Block Normal [Span ''c'' None]" "Block H2 [Span ''d'' None]"
          "Block Normal [Span ''e'' None]" "Block Normal [Span ''f'' None]" 7]
  have r1: "cells (snd (addImagePlaceholders 0 2 sixBlocks))
                  (fst (addImagePlaceholders 0 2 sixBlocks))
       = [Block H1 [Span ''a'' None], Block Normal [Span ''b'' None],
          Image ''[Placeholder 1: Add relevant image here]'' ''Replace with appropriate image'',
          Block Normal [Span ''c'' None], Block H2 [Span ''d'' None],
          Image ''[Placeholder 2: Add relevant image here]'' ''Replace with appropriate image'',
          Block Normal [Span ''e'' None], Block Normal [Span ''f'' None]]"
    using long six by metis
  have r2: "addImagePlaceholders 0 7 twoBlocks = (0, twoBlocks)"
    using short two by blast
  show ?thesis
    using six two r1 r2 by blast
qed

text \<open>
  Claim C10. \<open>addImagePlaceholders\<close> leaves every array that exists before the call as it
  is, its argument among them. When the argument has fewer than three blocks the call
  returns the argument itself and the store is unchanged. Otherwise it returns a new
  array, of the argument's length plus \<open>count\<close> (a count is not negative), of which the
  argument's blocks are a subsequence: they keep their relative order.
\<close>

theorem addImagePlaceholders_frame:
  assumes "blocks < nextRef s" and "0 \<le> count"
  shows "(\<forall>a < nextRef s. cells (snd (addImagePlaceholders blocks count s)) a = cells s a)
       \<and> (length (cells s blocks) < 3 \<longrightarrow> addImagePlaceholders blocks count s = (blocks, s))
       \<and> (3 \<le> length (cells s blocks) \<longrightarrow>
            fst (addImagePlaceholders blocks count s) = nextRef s
          \<and> fst (addImagePlaceholders blocks count s) \<noteq> blocks
          \<and> length (cells (snd (addImagePlaceholders blocks count s))
                      (fst (addImagePlaceholders blocks count s)))
              = length (cells s blocks) + nat count
          \<and> subseq (cells s blocks)
               (cells (snd (addImagePlaceholders blocks count s))
                      (fst (addImagePlaceholders blocks count s))))"
proof (cases "length (cells s blocks) < 3")
  case True
  then show ?thesis by (simp add: addImagePlaceholders_short)
next
  case False
  then have long: "3 \<le> length (cells s blocks)" by simp
  let ?s1 = "s\<lparr>cells := (cells s)(nextRef s := cells s blocks), nextRef := Suc (nextRef s)\<rparr>"
  let ?ps = "zip (rev (placeholderPositions (int (length (cells s blocks)) div (count + 1)) count))
                 [0 ..< nat count]"
  have eq: "addImagePlaceholders blocks count s
              = (nextRef s, insertPlaceholders (nextRef s) count ?ps ?s1)"
    by (rule addImagePlaceholders_long [OF long])
  have len: "length ?ps = nat count"
    by (simp add: length_placeholderPositions)
  have frame: "\<forall>a < nextRef s. cells (insertPlaceholders (nextRef s) count ?ps ?s1) a = cells s a"
    by (simp add: insertPlaceholders_other)
  have l: "length (cells (insertPlaceholders (nextRef s) count ?ps ?s1) (nextRef s))
             = length (cells s blocks) + nat count"
    using insertPlaceholders_length [of "nextRef s" count ?ps ?s1] len by simp
  have sub: "subseq (cells s blocks)
               (cells (insertPlaceholders (nextRef s) count ?ps ?s1) (nextRef s))"
    using insertPlaceholders_subseq [of ?s1 "nextRef s" count ?ps] by simp
  show ?thesis
    using assms long frame l sub unfolding eq by simp
qed

theorem addImagePlaceholders_frame_witness:
  "0 < nextRef sixBlocks \<and> (0 :: int) \<le> 2 \<and> 3 \<le> length (cells sixBlocks 0)
   \<and> cells (snd (addImagePlaceholders 0 2 sixBlocks)) 0 = cells sixBlocks 0
   \<and> fst (addImagePlaceholders 0 2 sixBlocks) = 1
   \<and> length (cells (snd (addImagePlaceholders 0 2 sixBlocks)) 1) = 8
   \<and> 0 < nextRef twoBlocks \<and> length (cells twoBlocks 0) < 3
   \<and> addImagePlaceholders 0 2 twoBlocks = (0, twoBlocks)"
proof -
  have a: "0 < nextRef sixBlocks" and n: "nextRef sixBlocks = 1"
    and c: "3 \<le> length (cells sixBlocks 0)" and len: "length (cells sixBlocks 0) = 6"
    by (simp_all add: sixBlocks_def)
  have b: "(0 :: int) \<le> 2" by simp
  have a2: "0 < nextRef twoBlocks" and c2: "length (cells twoBlocks 0) < 3"
    by (simp_all add: twoBlocks_def)
  note six = addImagePlaceholders_frame [OF a b]
  note two = addImagePlaceholders_frame [OF a2 b]
  have r0: "cells (snd (addImagePlaceholders 0 2 sixBlocks)) 0 = cells sixBlocks 0"
    using six a by blast
  have r1: "fst (addImagePlaceholders 0 2 sixBlocks) = 1"
    using six c n by simp
  have "length (cells (snd (addImagePlaceholders 0 2 sixBlocks))
                  (fst (addImagePlaceholders 0 2 sixBlocks)))
          = length (cells sixBlocks 0) + nat 2"
    using six c by blast
  then have r2: "length (cells (snd (addImagePlaceholders 0 2 sixBlocks)) 1) = 8"
    using r1 len by simp
  have r3: "addImagePlaceholders 0 2 twoBlocks = (0, twoBlocks)"
    using two c2 by blast
  show ?thesis
    using a b c r0 r1 r2 a2 c2 r3 by blast
qed

section \<open>Properties of slug generation\<close>

text \<open>
  Claim C6. For the title \<open>C\<^verbatim>\<open>a\<close>ine fericit!\<close> (circumflex on the \<open>a\<close>), \<open>generateSlug\<close>
  lower-cases the title, strips the punctuation (the exclamation mark, and the accented
  letter, which is no word character), turns the space into one hyphen, and returns
  \<open>cine-fericit\<close>: a slug that does not start with a hyphen, does not end with one and has
  no two hyphens side by side. The slug is built from the Romanian title when there is
  one, else from the English one.
\<close>

theorem generateSlug_caine_fericit:
  "toLowerCase caineFericit = ''c'' @ [CHR 0xE2] @ ''ine fericit!''
   \<and> stripPunctuation (toLowerCase caineFericit) = ''cine fericit''
   \<and> replaceRuns isWhiteSpace (stripPunctuation (toLowerCase caineFericit)) = ''cine-fericit''
   \<and> generateSlug caineFericit = ''cine-fericit''
   \<and> hd (generateSlug caineFericit) \<noteq> hyphen
   \<and> last (generateSlug caineFericit) \<noteq> hyphen
   \<and> \<not> hasRepeatedHyphen (generateSlug caineFericit)
   \<and> generateSlug (slugTitle [''ro'' \<mapsto> caineFericit, ''en'' \<mapsto> ''Happy dog''])
       = ''cine-fericit''
   \<and> generateSlug (slugTitle [''en'' \<mapsto> ''Happy dog'']) = ''happy-dog''"
  by code_simp

section \<open>Properties of the secrets loader\<close>

subsection \<open>The lookup key\<close>

text \<open>
  Claim C8, as stated: in every environment the lookup key is the name with the
  environment's suffix, unless the name ends in a suffix already. It fails in
  development: with no environment variable set the environment is \<open>development\<close>, the
  name \<open>API_KEY\<close> ends in no suffix, and the key is \<open>API_KEY\<close>, not \<open>API_KEY_DEV\<close>.
\<close>

theorem formatSecretName_development_counterexample:
  "getEnvironment Map.empty = Development
   \<and> \<not> (endsWith ''API_KEY'' ''_PROD'' \<or> endsWith ''API_KEY'' ''_STG''
         \<or> endsWith ''API_KEY'' ''_DEV'')
   \<and> formatSecretName Map.empty ''API_KEY'' None = ''API_KEY''
   \<and> formatSecretName Map.empty ''API_KEY'' None \<noteq> ''API_KEY'' @ suffixMap Development
   \<and> formatSecretName Map.empty ''API_KEY'' (Some Development)
       \<noteq> ''API_KEY'' @ suffixMap Development"
  by code_simp

text \<open>
  Claim C8, amended. With \<open>env\<close> the environment passed by the caller or, when none is
  passed, the detected one: a name that ends in \<open>_PROD\<close>, \<open>_STG\<close> or \<open>_DEV\<close> is the lookup
  key as it is, in every environment; any other name gets \<open>_PROD\<close> appended in production
  and \<open>_STG\<close> in staging, and is the lookup key as it is in development.
\<close>

theorem formatSecretName_by_environment:
  assumes "env = (case environment of Some e \<Rightarrow> e | None \<Rightarrow> getEnvironment penv)"
  shows "(endsWith name ''_PROD'' \<or> endsWith name ''_STG'' \<or> endsWith name ''_DEV''
            \<longrightarrow> formatSecretName penv name environment = name)
       \<and> (\<not> (endsWith name ''_PROD'' \<or> endsWith name ''_STG'' \<or> endsWith name ''_DEV'') \<longrightarrow>
            (env = Production \<longrightarrow> formatSecretName penv name environment = name @ ''_PROD'')
          \<and> (env = Staging \<longrightarrow> formatSecretName penv name environment = name @ ''_STG'')
          \<and> (env = Development \<longrightarrow> formatSecretName penv name environment = name))"
  using assms by (simp add: formatSecretName_def Let_def)

theorem formatSecretName_by_environment_witness:
  "Production = (case None of Some e \<Rightarrow> e | None \<Rightarrow> getEnvironment [''NODE_ENV'' \<mapsto> ''production''])
   \<and> \<not> (endsWith ''API_KEY'' ''_PROD'' \<or> endsWith ''API_KEY'' ''_STG''
         \<or> endsWith ''API_KEY'' ''_DEV'')
   \<and> formatSecretName [''NODE_ENV'' \<mapsto> ''production''] ''API_KEY'' None = ''API_KEY_PROD''
   \<and> endsWith ''API_KEY_PROD'' ''_PROD''
   \<and> formatSecretName [''NODE_ENV'' \<mapsto> ''production''] ''API_KEY_PROD'' None = ''API_KEY_PROD''
   \<and> Staging = (case Some Staging of Some e \<Rightarrow> e | None \<Rightarrow> getEnvironment Map.empty)
   \<and> formatSecretName Map.empty ''API_KEY'' (Some Staging) = ''API_KEY_STG''
   \<and> formatSecretName Map.empty ''API_KEY_PROD'' (Some Staging) = ''API_KEY_PROD''
   \<and> Development = (case None of Some e \<Rightarrow> e | None \<Rightarrow> getEnvironment Map.empty)
   \<and> formatSecretName Map.empty ''API_KEY'' None = ''API_KEY''"
proof -
  have prod: "Production
      = (case None of Some e \<Rightarrow> e | None \<Rightarrow> getEnvironment [''NODE_ENV'' \<mapsto> ''production''])"
    by code_simp
  have stg: "Staging = (case Some Staging of Some e \<Rightarrow> e | None \<Rightarrow> getEnvironment Map.empty)"
    by simp
  have dev: "Development = (case None of Some e \<Rightarrow> e | None \<Rightarrow> getEnvironment Map.empty)"
    by code_simp
  have plain: "\<not> (endsWith ''API_KEY'' ''_PROD'' \<or> endsWith ''API_KEY'' ''_STG''
                   \<or> endsWith ''API_KEY'' ''_DEV'')"
    by (simp add: endsWith_def)
  have suffixed: "endsWith ''API_KEY_PROD'' ''_PROD''"
    by (simp add: endsWith_def)
  have r1: "formatSecretName [''NODE_ENV'' \<mapsto> ''production''] ''API_KEY'' None
              = ''API_KEY'' @ ''_PROD''"
    using formatSecretName_by_environment [OF prod, of "''API_KEY''"] plain by blast
  have r2: "formatSecretName [''NODE_ENV'' \<mapsto> ''production''] ''API_KEY_PROD'' None
              = ''API_KEY_PROD''"
    using formatSecretName_by_environment [OF prod, of "''API_KEY_PROD''"] suffixed by blast
  have r3: "formatSecretName Map.empty ''API_KEY'' (Some Staging) = ''API_KEY'' @ ''_STG''"
    using formatSecretName_by_environment [OF stg, of "''API_KEY''"] plain by blast
  have r4: "formatSecretName Map.empty ''API_KEY_PROD'' (Some Staging) = ''API_KEY_PROD''"
    using formatSecretName_by_environment [OF stg, of "''API_KEY_PROD''"] suffixed by blast
  have r5: "formatSecretName Map.empty ''API_KEY'' None = ''API_KEY''"
    using formatSecretName_by_environment [OF dev, of "''API_KEY''"] plain by blast
  show ?thesis
    using prod stg dev plain suffixed r1 r2 r3 r4 r5 by simp
qed

subsection \<open>The cache\<close>

lemma getSecret_hit:
  assumes "opt_useCache options \<noteq> Some False"
    and "secretsCache st
           ((case opt_projectId options of Some p \<Rightarrow> p | None \<Rightarrow> getProjectId penv)
            @ ''/'' @ formatSecretName penv secretName (opt_environment options)) = Some (v, ts)"
    and "tCheck - ts < CACHE_TIMEOUT"
  shows "getSecret penv remote tCheck tStore secretName options st = (Inr v, st)"
  using assms by (auto simp: getSecret_def Let_def split: option.splits)

lemma getSecret_fetched:
  assumes "opt_useCache options \<noteq> Some False"
    and "getSecret penv remote tCheck tStore secretName options st = (Inr v, st1)"
    and "remoteCalls st1 \<noteq> remoteCalls st"
  shows "secretsCache st1
           ((case opt_projectId options of Some p \<Rightarrow> p | None \<Rightarrow> getProjectId penv)
            @ ''/'' @ formatSecretName penv secretName (opt_environment options))
         = Some (v, tStore)"
  using assms
  by (auto simp: getSecret_def Let_def split: option.splits if_splits remote_result.splits)

lemma getSecret_bypass:
  assumes "opt_useCache options = Some False"
  shows "getSecret penv remote tCheck tStore secretName options (st\<lparr>secretsCache := c\<rparr>)
       = (fst (getSecret penv remote tCheck tStore secretName options st),
          (snd (getSecret penv remote tCheck tStore secretName options st))\<lparr>secretsCache := c\<rparr>)"
  using assms
  by (auto simp: getSecret_def Let_def split: option.splits if_splits remote_result.splits)

text \<open>
  Claim C9. When a call with caching enabled has fetched a secret from the secret store
  and written the cache at time \<open>t1\<close>, a later call with caching enabled for the same
  project id and qualified name, reading the cache at a time \<open>t2\<close> with
  \<open>t2 - t1 < 5 minutes\<close>, returns that value and leaves the state as it is: no resource
  name is added to the calls of \<open>accessSecretVersion\<close>, whatever the secret store would
  answer. With \<open>useCache = false\<close> the cache is neither read nor written: the result and
  the calls are the same for every content of the cache.
\<close>

theorem getSecret_cache:
  "(opt_useCache options \<noteq> Some False
      \<and> getSecret penv remote t0 t1 secretName options st = (Inr v, st1)
      \<and> remoteCalls st1 \<noteq> remoteCalls st
      \<and> opt_useCache options2 \<noteq> Some False
      \<and> (case opt_projectId options2 of Some p \<Rightarrow> p | None \<Rightarrow> getProjectId penv2)
          = (case opt_projectId options of Some p \<Rightarrow> p | None \<Rightarrow> getProjectId penv)
      \<and> formatSecretName penv2 secretName2 (opt_environment options2)
          = formatSecretName penv secretName (opt_environment options)
      \<and> t2 - t1 < CACHE_TIMEOUT
      \<longrightarrow> getSecret penv2 remote2 t2 t3 secretName2 options2 st1 = (Inr v, st1))
   \<and> (opt_useCache options = Some False
      \<longrightarrow> getSecret penv remote t0 t1 secretName options (st\<lparr>secretsCache := c\<rparr>)
          = (fst (getSecret penv remote t0 t1 secretName options st),
             (snd (getSecret penv remote t0 t1 secretName options st))\<lparr>secretsCache := c\<rparr>))"
proof (intro conjI impI)
  assume h: "opt_useCache options \<noteq> Some False
      \<and> getSecret penv remote t0 t1 secretName options st = (Inr v, st1)
      \<and> remoteCalls st1 \<noteq> remoteCalls st
      \<and> opt_useCache options2 \<noteq> Some False
      \<and> (case opt_projectId options2 of Some p \<Rightarrow> p | None \<Rightarrow> getProjectId penv2)
          = (case opt_projectId options of Some p \<Rightarrow> p | None \<Rightarrow> getProjectId penv)
      \<and> formatSecretName penv2 secretName2 (opt_environment options2)
          = formatSecretName penv secretName (opt_environment options)
      \<and> t2 - t1 < CACHE_TIMEOUT"
  then have "secretsCache st1
           ((case opt_projectId options of Some p \<Rightarrow> p | None \<Rightarrow> getProjectId penv)
            @ ''/'' @ formatSecretName penv secretName (opt_environment options))
         = Some (v, t1)"
    by (intro getSecret_fetched [of options penv remote t0 t1 secretName st v st1]) simp_all
  with h have "secretsCache st1
           ((case opt_projectId options2 of Some p \<Rightarrow> p | None \<Rightarrow> getProjectId penv2)
            @ ''/'' @ formatSecretName penv2 secretName2 (opt_environment options2))
         = Some (v, t1)"
    by simp
  with h show "getSecret penv2 remote2 t2 t3 secretName2 options2 st1 = (Inr v, st1)"
    by (intro getSecret_hit [where ts = t1]) simp_all
next
  assume "opt_useCache options = Some False"
  then show "getSecret penv remote t0 t1 secretName options (st\<lparr>secretsCache := c\<rparr>)
          = (fst (getSecret penv remote t0 t1 secretName options st),
             (snd (getSecret penv remote t0 t1 secretName options st))\<lparr>secretsCache := c\<rparr>)"
    by (rule getSecret_bypass)
qed

lemma getSecret_first_call:
  "getSecret prodEnv (\<lambda>n. SecretData ''s3cr3t'') 1000 1200 ''API_KEY'' defaultOptions emptyState
     = (Inr ''s3cr3t'', fetchedState)"
  by (simp add: getSecret_def prodEnv_def defaultOptions_def emptyState_def fetchedState_def
        formatSecretName_def getEnvironment_def orElse_def endsWith_def CACHE_TIMEOUT_def
        truthy_def Let_def)

lemma getSecret_uncached_call:
  "getSecret prodEnv (\<lambda>n. SecretData ''rotated'') 1300 1400 ''API_KEY'' noCacheOptions emptyState
     = (Inr ''rotated'',
        emptyState\<lparr>remoteCalls := [''projects/p1/secrets/API_KEY_PROD/versions/latest'']\<rparr>)"
  by (simp add: getSecret_def prodEnv_def noCacheOptions_def emptyState_def
        formatSecretName_def getEnvironment_def orElse_def endsWith_def CACHE_TIMEOUT_def
        truthy_def Let_def)

theorem getSecret_cache_witness:
  "opt_useCache defaultOptions \<noteq> Some False
   \<and> getSecret prodEnv (\<lambda>n. SecretData ''s3cr3t'') 1000 1200 ''API_KEY'' defaultOptions emptyState
       = (Inr ''s3cr3t'', fetchedState)
   \<and> remoteCalls fetchedState \<noteq> remoteCalls emptyState
   \<and> (301199 :: int) - 1200 < CACHE_TIMEOUT
   \<and> getSecret prodEnv (\<lambda>n. Rejection 14 ''unavailable'') 301199 301300 ''API_KEY_PROD''
        defaultOptions fetchedState = (Inr ''s3cr3t'', fetchedState)
   \<and> opt_useCache noCacheOptions = Some False
   \<and> getSecret prodEnv (\<lambda>n. SecretData ''rotated'') 1300 1400 ''API_KEY'' noCacheOptions
        cachedState
       = (Inr ''rotated'',
          cachedState\<lparr>remoteCalls := [''projects/p1/secrets/API_KEY_PROD/versions/latest'']\<rparr>)"
proof -
  have u: "opt_useCache defaultOptions \<noteq> Some False"
    by (simp add: defaultOptions_def)
  have calls: "remoteCalls fetchedState \<noteq> remoteCalls emptyState"
    by (simp add: fetchedState_def emptyState_def)
  have pid: "(case opt_projectId defaultOptions of Some p \<Rightarrow> p | None \<Rightarrow> getProjectId prodEnv)
           = (case opt_projectId defaultOptions of Some p \<Rightarrow> p | None \<Rightarrow> getProjectId prodEnv)"
    by simp
  have name: "formatSecretName prodEnv ''API_KEY_PROD'' (opt_environment defaultOptions)
           = formatSecretName prodEnv ''API_KEY'' (opt_environment defaultOptions)"
    by (simp add: formatSecretName_def prodEnv_def defaultOptions_def getEnvironment_def
          orElse_def endsWith_def)
  have fresh: "(301199 :: int) - 1200 < CACHE_TIMEOUT"
    by (simp add: CACHE_TIMEOUT_def)
  have nocache: "opt_useCache noCacheOptions = Some False"
    by (simp add: noCacheOptions_def)
  have second: "getSecret prodEnv (\<lambda>n. Rejection 14 ''unavailable'') 301199 301300
        ''API_KEY_PROD'' defaultOptions fetchedState = (Inr ''s3cr3t'', fetchedState)"
    using getSecret_cache [of defaultOptions prodEnv "\<lambda>n. SecretData ''s3cr3t''" 1000 1200
        "''API_KEY''" emptyState "''s3cr3t''" fetchedState defaultOptions prodEnv
        "''API_KEY_PROD''" 301199 "\<lambda>n. Rejection 14 ''unavailable''" 301300]
      u getSecret_first_call calls pid name fresh by blast
  have "getSecret prodEnv (\<lambda>n. SecretData ''rotated'') 1300 1400 ''API_KEY'' noCacheOptions
          (emptyState\<lparr>secretsCache := secretsCache cachedState\<rparr>)
        = (fst (getSecret prodEnv (\<lambda>n. SecretData ''rotated'') 1300 1400 ''API_KEY''
                  noCacheOptions emptyState),
           (snd (getSecret prodEnv (\<lambda>n. SecretData ''rotated'') 1300 1400 ''API_KEY''
                  noCacheOptions emptyState))
             \<lparr>secretsCache := secretsCache cachedState\<rparr>)"
    using getSecret_cache [of noCacheOptions prodEnv "\<lambda>n. SecretData ''rotated''" 1300 1400
        "''API_KEY''" emptyState _ _ _ _ _ _ _ _ "secretsCache cachedState"] nocache by blast
  then have third: "getSecret prodEnv (\<lambda>n. SecretData ''rotated'') 1300 1400 ''API_KEY''
        noCacheOptions cachedState
       = (Inr ''rotated'',
          cachedState\<lparr>remoteCalls := [''projects/p1/secrets/API_KEY_PROD/versions/latest'']\<rparr>)"
    by (simp add: getSecret_uncached_call) (simp add: emptyState_def cachedState_def)
  show ?thesis
    using u getSecret_first_call calls fresh second nocache third by blast
qed

section \<open>Properties of the generation workflow\<close>

subsection \<open>The merge of one language\<close>

lemma thenMerge_keeps:
  assumes "\<And>g. sel (contentOf (f g)) = sel g"
  shows "sel (contentOf (thenMerge r f)) = sel (contentOf r)"
  using assms by (cases r) simp_all

lemma mergeExcerpt_keeps:
  "gc_title (contentOf (mergeExcerpt lang lc g)) = gc_title g"
  "gc_tags (contentOf (mergeExcerpt lang lc g)) = gc_tags g"
  by (simp_all add: mergeExcerpt_def split: option.splits)

lemma mergeBody_keeps:
  "gc_title (contentOf (mergeBody lang lc g)) = gc_title g"
  "gc_excerpt (contentOf (mergeBody lang lc g)) = gc_excerpt g"
  "gc_tags (contentOf (mergeBody lang lc g)) = gc_tags g"
  by (simp_all add: mergeBody_def split: option.splits)

lemma mergeSeo_keeps:
  "gc_title (contentOf (mergeSeo fd lang lc g)) = gc_title g"
  "gc_excerpt (contentOf (mergeSeo fd lang lc g)) = gc_excerpt g"
  "gc_content (contentOf (mergeSeo fd lang lc g)) = gc_content g"
  "gc_tags (contentOf (mergeSeo fd lang lc g)) = gc_tags g"
  by (simp_all add: mergeSeo_def Let_def split: option.splits)

lemma mergeTags_keeps:
  "gc_title (contentOf (mergeTags n lc g)) = gc_title g"
  "gc_excerpt (contentOf (mergeTags n lc g)) = gc_excerpt g"
  "gc_content (contentOf (mergeTags n lc g)) = gc_content g"
  by (simp_all add: mergeTags_def split: option.splits tags_value.splits)

lemma mergeLanguage_title:
  "gc_title (contentOf (mergeLanguage fd lang n lc gc)) =
     (case lc_title lc of
        None \<Rightarrow> gc_title gc
      | Some t \<Rightarrow> (if truthy (t lang) then (gc_title gc)(lang := t lang) else gc_title gc))"
  by (simp add: mergeLanguage_def thenMerge_keeps [where sel = gc_title] mergeTags_keeps
        mergeSeo_keeps mergeBody_keeps mergeExcerpt_keeps)
     (simp add: mergeTitle_def split: option.splits)

lemma mergeLanguage_excerpt:
  "gc_excerpt (contentOf (mergeLanguage fd lang n lc gc)) =
     (case lc_title lc of
        None \<Rightarrow> gc_excerpt gc
      | Some t \<Rightarrow>
          (case lc_excerpt lc of
             None \<Rightarrow> gc_excerpt gc
           | Some e \<Rightarrow> (if truthy (e lang) then (gc_excerpt gc)(lang := e lang)
                        else gc_excerpt gc)))"
  by (simp add: mergeLanguage_def thenMerge_keeps [where sel = gc_excerpt] mergeTags_keeps
        mergeSeo_keeps mergeBody_keeps)
     (simp add: mergeTitle_def mergeExcerpt_def split: option.splits)

lemma mergeLanguage_content:
  "gc_content (contentOf (mergeLanguage fd lang n lc gc)) =
     (case lc_title lc of
        None \<Rightarrow> gc_content gc
      | Some t \<Rightarrow>
          (case lc_excerpt lc of
             None \<Rightarrow> gc_content gc
           | Some e \<Rightarrow>
               (case lc_content lc of
                  None \<Rightarrow> gc_content gc
                | Some b \<Rightarrow> (if truthyContent (b lang) then (gc_content gc)(lang := b lang)
                             else gc_content gc))))"
  by (simp add: mergeLanguage_def thenMerge_keeps [where sel = gc_content] mergeTags_keeps
        mergeSeo_keeps)
     (simp add: mergeTitle_def mergeExcerpt_def mergeBody_def split: option.splits)

lemma completed_thenMerge:
  "completed (thenMerge r f) = (completed r \<and> completed (f (contentOf r)))"
  by (cases r) simp_all

lemma contentOf_thenMerge:
  "contentOf (thenMerge r f) = (if completed r then contentOf (f (contentOf r)) else contentOf r)"
  by (cases r) simp_all

lemma completed_steps:
  "completed (mergeTitle lang lc g) = (lc_title lc \<noteq> None)"
  "completed (mergeExcerpt lang lc g) = (lc_excerpt lc \<noteq> None)"
  "completed (mergeBody lang lc g) = (lc_content lc \<noteq> None)"
  "completed (mergeSeo fd lang lc g) =
     (if fd_includeSeo fd
      then (case lc_seo lc of
              None \<Rightarrow> True
            | Some s \<Rightarrow> lc_metaTitle s \<noteq> None \<and> lc_metaDescription s \<noteq> None)
      else True)"
  by (simp_all add: mergeTitle_def mergeExcerpt_def mergeBody_def mergeSeo_def Let_def
        split: option.splits)

lemma mergeTitle_tags: "gc_tags (contentOf (mergeTitle lang lc g)) = gc_tags g"
  by (simp add: mergeTitle_def split: option.splits)

lemma mergeTags_tags:
  "gc_tags (contentOf (mergeTags n lc g)) =
     (if n = 1
      then (case lc_tags lc of
              Some (TagList ts) \<Rightarrow> arrayFromSet (gc_tags g @ ts)
            | _ \<Rightarrow> gc_tags g)
      else gc_tags g)"
  by (simp add: mergeTags_def split: option.splits tags_value.splits)

lemma mergeLanguage_tags:
  "gc_tags (contentOf (mergeLanguage fd lang n lc gc)) =
     (if n = 1 \<and> mergeReachesTags fd lc
      then (case lc_tags lc of
              Some (TagList ts) \<Rightarrow> arrayFromSet (gc_tags gc @ ts)
            | _ \<Rightarrow> gc_tags gc)
      else gc_tags gc)"
proof -
  let ?r = "thenMerge
              (thenMerge
                 (thenMerge (mergeTitle lang lc gc) (mergeExcerpt lang lc))
                 (mergeBody lang lc))
              (mergeSeo fd lang lc)"
  have reach: "completed ?r = mergeReachesTags fd lc"
    by (simp add: completed_thenMerge completed_steps mergeReachesTags_def)
  have tags: "gc_tags (contentOf ?r) = gc_tags gc"
    by (simp add: thenMerge_keeps [where sel = gc_tags] mergeSeo_keeps mergeBody_keeps
          mergeExcerpt_keeps mergeTitle_tags)
  have "gc_tags (contentOf (thenMerge ?r (mergeTags n lc))) =
          (if completed ?r then gc_tags (contentOf (mergeTags n lc (contentOf ?r)))
           else gc_tags (contentOf ?r))"
    by (simp only: contentOf_thenMerge if_distrib [of gc_tags])
  then show ?thesis
    unfolding mergeLanguage_def reach mergeTags_tags tags by simp
qed

subsection \<open>The loop over the languages\<close>

lemma generateLanguage_counter:
  "completedLanguages (generateLanguage env fd tot ls lang) = Suc (completedLanguages ls)"
  by (simp add: generateLanguage_def Let_def split: response.splits)

lemma loop_counter:
  "completedLanguages (foldl (generateLanguage env fd tot) ls langs)
     = completedLanguages ls + length langs"
  by (induction langs arbitrary: ls) (simp_all add: generateLanguage_counter)

lemma generateLanguage_content_of:
  "generatedContent (generateLanguage env fd tot ls lang) =
     (case generateArticle env (Suc (completedLanguages ls)) (fd\<lparr>fd_languages := [lang]\<rparr>) of
        OkJson lc \<Rightarrow>
          contentOf (mergeLanguage fd lang (Suc (completedLanguages ls)) lc (generatedContent ls))
      | _ \<Rightarrow> generatedContent ls)"
  by (simp add: generateLanguage_def Let_def split: response.splits)

lemma succeededFrom_single:
  "set (succeededFrom env fd k [lang]) =
     (case generateArticle env (Suc k) (fd\<lparr>fd_languages := [lang]\<rparr>) of
        OkJson lc \<Rightarrow> {lang} | _ \<Rightarrow> {})"
  by (simp split: response.splits)

lemma generateLanguage_title:
  "dom (gc_title (generatedContent (generateLanguage env fd tot ls lang)))
     \<subseteq> dom (gc_title (generatedContent ls))
       \<union> set (succeededFrom env fd (completedLanguages ls) [lang])"
  unfolding generateLanguage_content_of succeededFrom_single
  by (auto simp: mergeLanguage_title truthy_def split: response.splits option.splits if_splits)

lemma generateLanguage_excerpt:
  "dom (gc_excerpt (generatedContent (generateLanguage env fd tot ls lang)))
     \<subseteq> dom (gc_excerpt (generatedContent ls))
       \<union> set (succeededFrom env fd (completedLanguages ls) [lang])"
  unfolding generateLanguage_content_of succeededFrom_single
  by (auto simp: mergeLanguage_excerpt truthy_def split: response.splits option.splits if_splits)

lemma generateLanguage_content:
  "dom (gc_content (generatedContent (generateLanguage env fd tot ls lang)))
     \<subseteq> dom (gc_content (generatedContent ls))
       \<union> set (succeededFrom env fd (completedLanguages ls) [lang])"
  unfolding generateLanguage_content_of succeededFrom_single
  by (auto simp: mergeLanguage_content truthyContent_def
           split: response.splits option.splits if_splits)

lemma generateLanguage_other:
  assumes "l \<noteq> lang"
  shows "gc_title (generatedContent (generateLanguage env fd tot ls lang)) l
           = gc_title (generatedContent ls) l"
    and "gc_excerpt (generatedContent (generateLanguage env fd tot ls lang)) l
           = gc_excerpt (generatedContent ls) l"
    and "gc_content (generatedContent (generateLanguage env fd tot ls lang)) l
           = gc_content (generatedContent ls) l"
  using assms unfolding generateLanguage_content_of
  by (simp_all add: mergeLanguage_title mergeLanguage_excerpt mergeLanguage_content
        split: response.splits option.splits)

lemma loop_other:
  assumes "l \<notin> set langs"
  shows "gc_title (generatedContent (foldl (generateLanguage env fd tot) ls langs)) l
           = gc_title (generatedContent ls) l"
    and "gc_excerpt (generatedContent (foldl (generateLanguage env fd tot) ls langs)) l
           = gc_excerpt (generatedContent ls) l"
    and "gc_content (generatedContent (foldl (generateLanguage env fd tot) ls langs)) l
           = gc_content (generatedContent ls) l"
  using assms
  by (induction langs arbitrary: ls) (simp_all add: generateLanguage_other)

lemma generateLanguage_kept:
  assumes "generateArticle env (Suc (completedLanguages ls)) (fd\<lparr>fd_languages := [lang]\<rparr>)
             = OkJson lc"
  shows "lc_title lc = Some t \<Longrightarrow> truthy (t lang) \<Longrightarrow>
           gc_title (generatedContent (generateLanguage env fd tot ls lang)) lang = t lang"
    and "lc_title lc \<noteq> None \<Longrightarrow> lc_excerpt lc = Some e \<Longrightarrow> truthy (e lang) \<Longrightarrow>
           gc_excerpt (generatedContent (generateLanguage env fd tot ls lang)) lang = e lang"
    and "lc_title lc \<noteq> None \<Longrightarrow> lc_excerpt lc \<noteq> None \<Longrightarrow> lc_content lc = Some b \<Longrightarrow>
           truthyContent (b lang) \<Longrightarrow>
           gc_content (generatedContent (generateLanguage env fd tot ls lang)) lang = b lang"
  unfolding generateLanguage_content_of assms
  by (auto simp: mergeLanguage_title mergeLanguage_excerpt mergeLanguage_content)

lemma loop_kept:
  assumes i: "i < length langs"
    and last: "langs ! i \<notin> set (drop (Suc i) langs)"
    and ok: "generateArticle env (Suc (completedLanguages ls + i))
               (fd\<lparr>fd_languages := [langs ! i]\<rparr>) = OkJson lc"
  shows "lc_title lc = Some t \<Longrightarrow> truthy (t (langs ! i)) \<Longrightarrow>
           gc_title (generatedContent (foldl (generateLanguage env fd tot) ls langs)) (langs ! i)
             = t (langs ! i)"
    and "lc_title lc \<noteq> None \<Longrightarrow> lc_excerpt lc = Some e \<Longrightarrow> truthy (e (langs ! i)) \<Longrightarrow>
           gc_excerpt (generatedContent (foldl (generateLanguage env fd tot) ls langs)) (langs ! i)
             = e (langs ! i)"
    and "lc_title lc \<noteq> None \<Longrightarrow> lc_excerpt lc \<noteq> None \<Longrightarrow> lc_content lc = Some b \<Longrightarrow>
           truthyContent (b (langs ! i)) \<Longrightarrow>
           gc_content (generatedContent (foldl (generateLanguage env fd tot) ls langs)) (langs ! i)
             = b (langs ! i)"
proof -
  let ?before = "foldl (generateLanguage env fd tot) ls (take i langs)"
  let ?at = "generateLanguage env fd tot ?before (langs ! i)"
  have split: "langs = take i langs @ langs ! i # drop (Suc i) langs"
    using i by (simp add: id_take_nth_drop)
  have run: "foldl (generateLanguage env fd tot) ls langs
               = foldl (generateLanguage env fd tot) ?at (drop (Suc i) langs)"
    by (subst split) simp
  have counter: "completedLanguages ?before = completedLanguages ls + i"
    using i by (simp add: loop_counter)
  have ok': "generateArticle env (Suc (completedLanguages ?before))
               (fd\<lparr>fd_languages := [langs ! i]\<rparr>) = OkJson lc"
    using ok by (simp add: counter)
  show "lc_title lc = Some t \<Longrightarrow> truthy (t (langs ! i)) \<Longrightarrow>
           gc_title (generatedContent (foldl (generateLanguage env fd tot) ls langs)) (langs ! i)
             = t (langs ! i)"
    unfolding run using loop_other(1) [OF last] generateLanguage_kept(1) [OF ok'] by simp
  show "lc_title lc \<noteq> None \<Longrightarrow> lc_excerpt lc = Some e \<Longrightarrow> truthy (e (langs ! i)) \<Longrightarrow>
           gc_excerpt (generatedContent (foldl (generateLanguage env fd tot) ls langs)) (langs ! i)
             = e (langs ! i)"
    unfolding run using loop_other(2) [OF last] generateLanguage_kept(2) [OF ok'] by simp
  show "lc_title lc \<noteq> None \<Longrightarrow> lc_excerpt lc \<noteq> None \<Longrightarrow> lc_content lc = Some b \<Longrightarrow>
           truthyContent (b (langs ! i)) \<Longrightarrow>
           gc_content (generatedContent (foldl (generateLanguage env fd tot) ls langs)) (langs ! i)
             = b (langs ! i)"
    unfolding run using loop_other(3) [OF last] generateLanguage_kept(3) [OF ok'] by simp
qed

lemma succeededFrom_Cons:
  "set (succeededFrom env fd k (lang # rest))
     = set (succeededFrom env fd k [lang]) \<union> set (succeededFrom env fd (Suc k) rest)"
  by (auto split: response.splits)

lemma succeededFrom_index:
  "l \<in> set (succeededFrom env fd k langs) \<Longrightarrow>
   \<exists>j < length langs. langs ! j = l
     \<and> (\<exists>lc. generateArticle env (Suc (k + j)) (fd\<lparr>fd_languages := [l]\<rparr>) = OkJson lc)"
proof (induction langs arbitrary: k)
  case Nil
  then show ?case by simp
next
  case (Cons lang rest)
  show ?case
  proof (cases "l \<in> set (succeededFrom env fd (Suc k) rest)")
    case True
    then obtain j where "j < length rest" "rest ! j = l"
      "\<exists>lc. generateArticle env (Suc (Suc k + j)) (fd\<lparr>fd_languages := [l]\<rparr>) = OkJson lc"
      using Cons.IH [of "Suc k"] by blast
    then have "Suc j < length (lang # rest) \<and> (lang # rest) ! Suc j = l
        \<and> (\<exists>lc. generateArticle env (Suc (k + Suc j)) (fd\<lparr>fd_languages := [l]\<rparr>) = OkJson lc)"
      by simp
    then show ?thesis by blast
  next
    case False
    with Cons.prems have "l = lang
        \<and> (\<exists>lc. generateArticle env (Suc k) (fd\<lparr>fd_languages := [l]\<rparr>) = OkJson lc)"
      by (auto split: response.splits)
    then have "0 < length (lang # rest) \<and> (lang # rest) ! 0 = l
        \<and> (\<exists>lc. generateArticle env (Suc (k + 0)) (fd\<lparr>fd_languages := [l]\<rparr>) = OkJson lc)"
      by auto
    then show ?thesis by blast
  qed
qed

lemma succeededFrom_all:
  "(\<forall>j < length langs. \<exists>lc. generateArticle env (Suc (k + j))
        (fd\<lparr>fd_languages := [langs ! j]\<rparr>) = OkJson lc)
   \<Longrightarrow> succeededFrom env fd k langs = langs"
proof (induction langs arbitrary: k)
  case Nil
  then show ?case by simp
next
  case (Cons lang rest)
  have first: "\<exists>lc. generateArticle env (Suc k) (fd\<lparr>fd_languages := [lang]\<rparr>) = OkJson lc"
    using Cons.prems [rule_format, of 0] by simp
  have "\<forall>j < length rest. \<exists>lc. generateArticle env (Suc (Suc k + j))
          (fd\<lparr>fd_languages := [rest ! j]\<rparr>) = OkJson lc"
  proof (intro allI impI)
    fix j assume "j < length rest"
    then show "\<exists>lc. generateArticle env (Suc (Suc k + j))
          (fd\<lparr>fd_languages := [rest ! j]\<rparr>) = OkJson lc"
      using Cons.prems [rule_format, of "Suc j"] by simp
  qed
  then have "succeededFrom env fd (Suc k) rest = rest"
    by (rule Cons.IH)
  with first show ?case by auto
qed

lemma some_request_fails:
  assumes "length (succeededFrom env fd k langs) < length langs"
  shows "\<exists>j < length langs. \<forall>lc. generateArticle env (Suc (k + j))
           (fd\<lparr>fd_languages := [langs ! j]\<rparr>) \<noteq> OkJson lc"
  using assms succeededFrom_all [of langs env k fd] by force

lemma failed_not_succeeded:
  assumes "distinct langs" and "i < length langs"
    and "\<forall>lc. generateArticle env (Suc (k + i)) (fd\<lparr>fd_languages := [langs ! i]\<rparr>) \<noteq> OkJson lc"
  shows "langs ! i \<notin> set (succeededFrom env fd k langs)"
proof
  assume "langs ! i \<in> set (succeededFrom env fd k langs)"
  then obtain j where j: "j < length langs" "langs ! j = langs ! i"
    and ok: "\<exists>lc. generateArticle env (Suc (k + j)) (fd\<lparr>fd_languages := [langs ! i]\<rparr>) = OkJson lc"
    using succeededFrom_index by blast
  from j assms(1,2) have "j = i"
    by (simp add: nth_eq_iff_index_eq)
  with ok assms(3) show False by simp
qed

lemma loop_title:
  "dom (gc_title (generatedContent (foldl (generateLanguage env fd tot) ls langs)))
     \<subseteq> dom (gc_title (generatedContent ls))
       \<union> set (succeededFrom env fd (completedLanguages ls) langs)"
proof (induction langs arbitrary: ls)
  case Nil
  then show ?case by simp
next
  case (Cons lang rest)
  let ?ls1 = "generateLanguage env fd tot ls lang"
  have "dom (gc_title (generatedContent (foldl (generateLanguage env fd tot) ?ls1 rest)))
          \<subseteq> dom (gc_title (generatedContent ?ls1))
            \<union> set (succeededFrom env fd (Suc (completedLanguages ls)) rest)"
    using Cons.IH [of ?ls1] by (simp add: generateLanguage_counter)
  then show ?case
    using generateLanguage_title [of env fd tot ls lang]
    unfolding succeededFrom_Cons [of env fd "completedLanguages ls" lang rest]
    by auto
qed

lemma loop_excerpt:
  "dom (gc_excerpt (generatedContent (foldl (generateLanguage env fd tot) ls langs)))
     \<subseteq> dom (gc_excerpt (generatedContent ls))
       \<union> set (succeededFrom env fd (completedLanguages ls) langs)"
proof (induction langs arbitrary: ls)
  case Nil
  then show ?case by simp
next
  case (Cons lang rest)
  let ?ls1 = "generateLanguage env fd tot ls lang"
  have "dom (gc_excerpt (generatedContent (foldl (generateLanguage env fd tot) ?ls1 rest)))
          \<subseteq> dom (gc_excerpt (generatedContent ?ls1))
            \<union> set (succeededFrom env fd (Suc (completedLanguages ls)) rest)"
    using Cons.IH [of ?ls1] by (simp add: generateLanguage_counter)
  then show ?case
    using generateLanguage_excerpt [of env fd tot ls lang]
    unfolding succeededFrom_Cons [of env fd "completedLanguages ls" lang rest]
    by auto
qed

lemma loop_content:
  "dom (gc_content (generatedContent (foldl (generateLanguage env fd tot) ls langs)))
     \<subseteq> dom (gc_content (generatedContent ls))
       \<union> set (succeededFrom env fd (completedLanguages ls) langs)"
proof (induction langs arbitrary: ls)
  case Nil
  then show ?case by simp
next
  case (Cons lang rest)
  let ?ls1 = "generateLanguage env fd tot ls lang"
  have "dom (gc_content (generatedContent (foldl (generateLanguage env fd tot) ?ls1 rest)))
          \<subseteq> dom (gc_content (generatedContent ?ls1))
            \<union> set (succeededFrom env fd (Suc (completedLanguages ls)) rest)"
    using Cons.IH [of ?ls1] by (simp add: generateLanguage_counter)
  then show ?case
    using generateLanguage_content [of env fd tot ls lang]
    unfolding succeededFrom_Cons [of env fd "completedLanguages ls" lang rest]
    by auto
qed

lemma generateLanguage_tags:
  "gc_tags (generatedContent (generateLanguage env fd tot ls lang)) =
     (if completedLanguages ls = 0
      then (case generateArticle env 1 (fd\<lparr>fd_languages := [lang]\<rparr>) of
              OkJson lc \<Rightarrow>
                (if mergeReachesTags fd lc
                 then (case lc_tags lc of
                         Some (TagList ts) \<Rightarrow> arrayFromSet (gc_tags (generatedContent ls) @ ts)
                       | _ \<Rightarrow> gc_tags (generatedContent ls))
                 else gc_tags (generatedContent ls))
            | _ \<Rightarrow> gc_tags (generatedContent ls))
      else gc_tags (generatedContent ls))"
  unfolding generateLanguage_content_of
  by (simp add: mergeLanguage_tags split: response.splits)

lemma loop_tags_later:
  "0 < completedLanguages ls \<Longrightarrow>
   gc_tags (generatedContent (foldl (generateLanguage env fd tot) ls langs))
     = gc_tags (generatedContent ls)"
  by (induction langs arbitrary: ls)
     (simp_all add: generateLanguage_tags generateLanguage_counter)

subsection \<open>The whole run\<close>

lemma searchFeaturedImage_proceeds:
  "\<not> imageSearchThrows env fd \<Longrightarrow> \<exists>photo st2. searchFeaturedImage env fd st = (Inr photo, st2)"
  by (auto simp: imageSearchThrows_def searchFeaturedImage_def Let_def
           split: response.splits option.splits list.splits)

lemma generateBody_success:
  assumes "fd_topic fd \<noteq> []" and "fd_languages fd \<noteq> []"
    and "searchFeaturedImage env fd st = (Inr photo, st2)"
  shows "\<exists>sent st'. generateBody env fd st =
           (Inr (prepareDocument env fd
                   (generatedContent (generateLanguages env fd photo (st2\<lparr>h_state := Generating\<rparr>)))
                   (formatContentForSanity
                      (generatedContent (generateLanguages env fd photo (st2\<lparr>h_state := Generating\<rparr>))))
                   sent), st')
         \<and> h_state st' = Complete
         \<and> h_progress st' = \<lparr>p_state = Complete, p_currentLanguage = None,
                              p_completedLanguages = fd_languages fd, p_message = None\<rparr>"
  using assms by (simp add: generateBody_def Let_def) blast

lemma generate_success:
  assumes "fd_topic fd \<noteq> []" and "fd_languages fd \<noteq> []"
    and "\<not> imageSearchThrows env fd"
  shows "\<exists>photo st2 sent st'.
           generate env fd documentId st =
             (Inr (prepareDocument env fd
                     (generatedContent (generateLanguages env fd photo st2))
                     (formatContentForSanity (generatedContent (generateLanguages env fd photo st2)))
                     sent), st')
         \<and> h_state st' = Complete
         \<and> h_progress st' = \<lparr>p_state = Complete, p_currentLanguage = None,
                              p_completedLanguages = fd_languages fd, p_message = None\<rparr>"
proof -
  let ?st1 = "st\<lparr>h_state := Validating, h_error := None,
                   h_progress := \<lparr>p_state = Validating, p_currentLanguage = None,
                                  p_completedLanguages = [], p_message = None\<rparr>\<rparr>"
  obtain photo st2 where search: "searchFeaturedImage env fd ?st1 = (Inr photo, st2)"
    using searchFeaturedImage_proceeds [OF assms(3)] by blast
  obtain sent st' where
    body: "generateBody env fd ?st1 =
             (Inr (prepareDocument env fd
                     (generatedContent (generateLanguages env fd photo (st2\<lparr>h_state := Generating\<rparr>)))
                     (formatContentForSanity
                        (generatedContent (generateLanguages env fd photo (st2\<lparr>h_state := Generating\<rparr>))))
                     sent), st')"
    and final: "h_state st' = Complete"
      "h_progress st' = \<lparr>p_state = Complete, p_currentLanguage = None,
                          p_completedLanguages = fd_languages fd, p_message = None\<rparr>"
    using generateBody_success [OF assms(1,2) search] by blast
  have "generate env fd documentId st =
          (Inr (prepareDocument env fd
                  (generatedContent (generateLanguages env fd photo (st2\<lparr>h_state := Generating\<rparr>)))
                  (formatContentForSanity
                     (generatedContent (generateLanguages env fd photo (st2\<lparr>h_state := Generating\<rparr>))))
                  sent), st')"
    by (simp add: generate_def Let_def body)
  with final show ?thesis by blast
qed

lemma generateLanguages_title:
  "dom (gc_title (generatedContent (generateLanguages env fd photo st)))
     \<subseteq> set (succeededLanguages env fd)"
  using loop_title [of env fd "length (fd_languages fd)"
      "\<lparr>completedLanguages = 0, generatedContent = initialContent fd photo, hook = st\<rparr>"
      "fd_languages fd"]
  by (simp add: generateLanguages_def succeededLanguages_def initialContent_def)

lemma generateLanguages_excerpt:
  "dom (gc_excerpt (generatedContent (generateLanguages env fd photo st)))
     \<subseteq> set (succeededLanguages env fd)"
  using loop_excerpt [of env fd "length (fd_languages fd)"
      "\<lparr>completedLanguages = 0, generatedContent = initialContent fd photo, hook = st\<rparr>"
      "fd_languages fd"]
  by (simp add: generateLanguages_def succeededLanguages_def initialContent_def)

lemma generateLanguages_content:
  "dom (gc_content (generatedContent (generateLanguages env fd photo st)))
     \<subseteq> set (succeededLanguages env fd)"
  using loop_content [of env fd "length (fd_languages fd)"
      "\<lparr>completedLanguages = 0, generatedContent = initialContent fd photo, hook = st\<rparr>"
      "fd_languages fd"]
  by (simp add: generateLanguages_def succeededLanguages_def initialContent_def)

lemma generateLanguages_tags:
  "fd_languages fd \<noteq> [] \<Longrightarrow>
   gc_tags (generatedContent (generateLanguages env fd photo st))
     = (case generateArticle env 1 (fd\<lparr>fd_languages := [hd (fd_languages fd)]\<rparr>) of
          OkJson lc \<Rightarrow>
            (if mergeReachesTags fd lc
             then (case lc_tags lc of
                     Some (TagList ts) \<Rightarrow> arrayFromSet (fd_keywords fd @ ts)
                   | _ \<Rightarrow> fd_keywords fd)
             else fd_keywords fd)
        | _ \<Rightarrow> fd_keywords fd)"
  by (cases "fd_languages fd")
     (simp_all add: generateLanguages_def loop_tags_later generateLanguage_counter
        generateLanguage_tags initialContent_def
        split: response.splits option.splits tags_value.splits)

lemma generateLanguages_kept:
  assumes "i < length (fd_languages fd)"
    and "fd_languages fd ! i \<notin> set (drop (Suc i) (fd_languages fd))"
    and "generateArticle env (Suc i) (fd\<lparr>fd_languages := [fd_languages fd ! i]\<rparr>) = OkJson lc"
  shows "lc_title lc = Some t \<Longrightarrow> truthy (t (fd_languages fd ! i)) \<Longrightarrow>
           gc_title (generatedContent (generateLanguages env fd photo st)) (fd_languages fd ! i)
             = t (fd_languages fd ! i)"
    and "lc_title lc \<noteq> None \<Longrightarrow> lc_excerpt lc = Some e \<Longrightarrow>
           truthy (e (fd_languages fd ! i)) \<Longrightarrow>
           gc_excerpt (generatedContent (generateLanguages env fd photo st)) (fd_languages fd ! i)
             = e (fd_languages fd ! i)"
    and "lc_title lc \<noteq> None \<Longrightarrow> lc_excerpt lc \<noteq> None \<Longrightarrow> lc_content lc = Some b \<Longrightarrow>
           truthyContent (b (fd_languages fd ! i)) \<Longrightarrow>
           gc_content (generatedContent (generateLanguages env fd photo st)) (fd_languages fd ! i)
             = b (fd_languages fd ! i)"
proof -
  let ?ls = "\<lparr>completedLanguages = 0, generatedContent = initialContent fd photo, hook = st\<rparr>"
  have ok: "generateArticle env (Suc (completedLanguages ?ls + i))
              (fd\<lparr>fd_languages := [fd_languages fd ! i]\<rparr>) = OkJson lc"
    using assms(3) by simp
  show "lc_title lc = Some t \<Longrightarrow> truthy (t (fd_languages fd ! i)) \<Longrightarrow>
           gc_title (generatedContent (generateLanguages env fd photo st)) (fd_languages fd ! i)
             = t (fd_languages fd ! i)"
    unfolding generateLanguages_def by (rule loop_kept(1) [OF assms(1,2) ok])
  show "lc_title lc \<noteq> None \<Longrightarrow> lc_excerpt lc = Some e \<Longrightarrow>
           truthy (e (fd_languages fd ! i)) \<Longrightarrow>
           gc_excerpt (generatedContent (generateLanguages env fd photo st)) (fd_languages fd ! i)
             = e (fd_languages fd ! i)"
    unfolding generateLanguages_def by (rule loop_kept(2) [OF assms(1,2) ok])
  show "lc_title lc \<noteq> None \<Longrightarrow> lc_excerpt lc \<noteq> None \<Longrightarrow> lc_content lc = Some b \<Longrightarrow>
           truthyContent (b (fd_languages fd ! i)) \<Longrightarrow>
           gc_content (generatedContent (generateLanguages env fd photo st)) (fd_languages fd ! i)
             = b (fd_languages fd ! i)"
    unfolding generateLanguages_def by (rule loop_kept(3) [OF assms(1,2) ok])
qed

lemma formatted_title:
  "f_title (formatContentForSanity c) l =
     (if l \<in> set supportedLanguages \<and> truthy (gc_title c l) then gc_title c l else None)"
  by (simp add: formatContentForSanity_def f_title_foldl)

lemma formatted_excerpt:
  "f_excerpt (formatContentForSanity c) l =
     (if l \<in> set supportedLanguages \<and> truthy (gc_excerpt c l) then gc_excerpt c l else None)"
  by (simp add: formatContentForSanity_def f_excerpt_foldl)

lemma formatted_content:
  "f_content (formatContentForSanity c) l =
     (if l \<in> set supportedLanguages
      then (case gc_content c l of
              Some (BlockArray bs) \<Rightarrow> Some bs
            | Some (MarkdownText md) \<Rightarrow> (if md \<noteq> [] then Some (formatBlockContent md) else None)
            | _ \<Rightarrow> None)
      else None)"
  by (simp add: formatContentForSanity_def f_content_foldl
        split: option.splits content_value.splits)

text \<open>The entries of a language whose request succeeded, in the payload.\<close>

lemma document_kept:
  assumes i: "i < length (fd_languages fd)"
    and last: "fd_languages fd ! i \<notin> set (drop (Suc i) (fd_languages fd))"
    and ok: "generateArticle env (Suc i) (fd\<lparr>fd_languages := [fd_languages fd ! i]\<rparr>) = OkJson lc"
    and supported: "fd_languages fd ! i \<in> set supportedLanguages"
    and c: "c = generatedContent (generateLanguages env fd photo st)"
    and d: "d = prepareDocument env fd c (formatContentForSanity c) sent"
  shows "lc_title lc = Some t \<Longrightarrow> truthy (t (fd_languages fd ! i)) \<Longrightarrow>
           d_title d (fd_languages fd ! i) = t (fd_languages fd ! i)"
    and "lc_title lc \<noteq> None \<Longrightarrow> lc_excerpt lc = Some e \<Longrightarrow>
           truthy (e (fd_languages fd ! i)) \<Longrightarrow>
           d_excerpt d (fd_languages fd ! i) = e (fd_languages fd ! i)"
    and "lc_title lc \<noteq> None \<Longrightarrow> lc_excerpt lc \<noteq> None \<Longrightarrow> lc_content lc = Some b \<Longrightarrow>
           b (fd_languages fd ! i) = Some (BlockArray bs) \<Longrightarrow>
           d_content d (fd_languages fd ! i) = Some bs"
    and "lc_title lc \<noteq> None \<Longrightarrow> lc_excerpt lc \<noteq> None \<Longrightarrow> lc_content lc = Some b \<Longrightarrow>
           b (fd_languages fd ! i) = Some (MarkdownText md) \<Longrightarrow> md \<noteq> [] \<Longrightarrow>
           d_content d (fd_languages fd ! i) = Some (formatBlockContent md)"
proof -
  let ?l = "fd_languages fd ! i"
  show "lc_title lc = Some t \<Longrightarrow> truthy (t ?l) \<Longrightarrow> d_title d ?l = t ?l"
    using generateLanguages_kept(1) [OF i last ok, where photo = photo and st = st] supported
    by (simp add: d c prepareDocument_def formatted_title)
  show "lc_title lc \<noteq> None \<Longrightarrow> lc_excerpt lc = Some e \<Longrightarrow> truthy (e ?l) \<Longrightarrow>
          d_excerpt d ?l = e ?l"
    using generateLanguages_kept(2) [OF i last ok, where photo = photo and st = st] supported
    by (simp add: d c prepareDocument_def formatted_excerpt)
  show "lc_title lc \<noteq> None \<Longrightarrow> lc_excerpt lc \<noteq> None \<Longrightarrow> lc_content lc = Some b \<Longrightarrow>
          b ?l = Some (BlockArray bs) \<Longrightarrow> d_content d ?l = Some bs"
    using generateLanguages_kept(3) [OF i last ok, where photo = photo and st = st] supported
    by (simp add: d c prepareDocument_def formatted_content truthyContent_def)
  show "lc_title lc \<noteq> None \<Longrightarrow> lc_excerpt lc \<noteq> None \<Longrightarrow> lc_content lc = Some b \<Longrightarrow>
          b ?l = Some (MarkdownText md) \<Longrightarrow> md \<noteq> [] \<Longrightarrow>
          d_content d ?l = Some (formatBlockContent md)"
    using generateLanguages_kept(3) [OF i last ok, where photo = photo and st = st] supported
    by (simp add: d c prepareDocument_def formatted_content truthyContent_def)
qed

text \<open>A language outside the succeeded ones has no entry in the payload.\<close>

lemma document_skipped:
  assumes "l \<notin> set (succeededLanguages env fd)"
    and c: "c = generatedContent (generateLanguages env fd photo st)"
    and d: "d = prepareDocument env fd c (formatContentForSanity c) sent"
  shows "d_title d l = None \<and> d_excerpt d l = None \<and> d_content d l = None"
proof -
  have "l \<notin> dom (gc_title c)" and "l \<notin> dom (gc_excerpt c)" and "l \<notin> dom (gc_content c)"
    using assms(1) generateLanguages_title [of env fd photo st]
      generateLanguages_excerpt [of env fd photo st]
      generateLanguages_content [of env fd photo st]
    unfolding c by blast+
  then have "gc_title c l = None" and "gc_excerpt c l = None" and "gc_content c l = None"
    by (simp_all add: domIff)
  then show ?thesis
    by (simp add: d prepareDocument_def formatted_title formatted_excerpt formatted_content
          truthy_def)
qed

subsection \<open>Partial success\<close>

text \<open>
  Claim C1. For a request with a non-empty topic and a non-empty list of languages, when
  the request of at least one language fails (a response that is not ok, or a thrown
  error) and step 2 does not throw, \<open>generate\<close> returns a payload, the final state is
  \<open>complete\<close>, and the final progress lists every requested language as completed. The
  payload's localized title, excerpt and content have entries only for languages whose
  request succeeded. They do have the entries of such a language: for a supported language
  that is not requested again later, the title, the excerpt and the content of its ok
  response are in the payload (the content formatted when it is markdown), as far as the
  response has the objects the merge reads before them. In a list without repetitions a
  language whose request failed has no entry, so that some requested language has none.
\<close>

theorem generate_partial_success:
  assumes "fd_topic formData \<noteq> []" and "fd_languages formData \<noteq> []"
    and "length (succeededLanguages env formData) < length (fd_languages formData)"
    and "\<not> imageSearchThrows env formData"
  shows "\<exists>documentData st'.
           generate env formData documentId st = (Inr documentData, st')
         \<and> h_state st' = Complete
         \<and> p_state (h_progress st') = Complete
         \<and> p_completedLanguages (h_progress st') = fd_languages formData
         \<and> dom (d_title documentData) \<subseteq> set (succeededLanguages env formData)
         \<and> dom (d_excerpt documentData) \<subseteq> set (succeededLanguages env formData)
         \<and> dom (d_content documentData) \<subseteq> set (succeededLanguages env formData)
         \<and> (\<forall>i < length (fd_languages formData). \<forall>langContent.
               generateArticle env (Suc i)
                 (formData\<lparr>fd_languages := [fd_languages formData ! i]\<rparr>) = OkJson langContent
               \<and> fd_languages formData ! i \<in> set supportedLanguages
               \<and> fd_languages formData ! i \<notin> set (drop (Suc i) (fd_languages formData))
               \<longrightarrow>
                 (\<forall>title. lc_title langContent = Some title
                      \<and> truthy (title (fd_languages formData ! i))
                    \<longrightarrow> d_title documentData (fd_languages formData ! i)
                          = title (fd_languages formData ! i))
               \<and> (\<forall>excerpt. lc_title langContent \<noteq> None \<and> lc_excerpt langContent = Some excerpt
                      \<and> truthy (excerpt (fd_languages formData ! i))
                    \<longrightarrow> d_excerpt documentData (fd_languages formData ! i)
                          = excerpt (fd_languages formData ! i))
               \<and> (\<forall>body. lc_title langContent \<noteq> None \<and> lc_excerpt langContent \<noteq> None
                      \<and> lc_content langContent = Some body
                    \<longrightarrow> (\<forall>blocks. body (fd_languages formData ! i) = Some (BlockArray blocks)
                            \<longrightarrow> d_content documentData (fd_languages formData ! i) = Some blocks)
                      \<and> (\<forall>markdown. body (fd_languages formData ! i) = Some (MarkdownText markdown)
                              \<and> markdown \<noteq> []
                            \<longrightarrow> d_content documentData (fd_languages formData ! i)
                                  = Some (formatBlockContent markdown))))
         \<and> (distinct (fd_languages formData) \<longrightarrow>
               (\<forall>i < length (fd_languages formData).
                  (\<forall>langContent. generateArticle env (Suc i)
                       (formData\<lparr>fd_languages := [fd_languages formData ! i]\<rparr>) \<noteq> OkJson langContent)
                  \<longrightarrow> d_title documentData (fd_languages formData ! i) = None
                    \<and> d_excerpt documentData (fd_languages formData ! i) = None
                    \<and> d_content documentData (fd_languages formData ! i) = None)
             \<and> (\<exists>lang \<in> set (fd_languages formData).
                   d_title documentData lang = None \<and> d_excerpt documentData lang = None
                   \<and> d_content documentData lang = None))"
proof -
  obtain photo st2 sent st' where
    run: "generate env formData documentId st =
            (Inr (prepareDocument env formData
                    (generatedContent (generateLanguages env formData photo st2))
                    (formatContentForSanity
                       (generatedContent (generateLanguages env formData photo st2)))
                    sent), st')"
    and final: "h_state st' = Complete"
      "h_progress st' = \<lparr>p_state = Complete, p_currentLanguage = None,
                          p_completedLanguages = fd_languages formData, p_message = None\<rparr>"
    using generate_success [OF assms(1,2,4)] by blast
  define c where "c = generatedContent (generateLanguages env formData photo st2)"
  define d where "d = prepareDocument env formData c (formatContentForSanity c) sent"
  let ?langs = "fd_languages formData"
  have skipped: "d_title d l = None \<and> d_excerpt d l = None \<and> d_content d l = None"
    if "l \<notin> set (succeededLanguages env formData)" for l
    using that by (rule document_skipped [OF _ c_def d_def])
  have doms: "dom (d_title d) \<subseteq> set (succeededLanguages env formData)"
    "dom (d_excerpt d) \<subseteq> set (succeededLanguages env formData)"
    "dom (d_content d) \<subseteq> set (succeededLanguages env formData)"
    using skipped by (auto simp: domIff) (metis option.distinct(1))+
  have kept: "\<forall>i < length ?langs. \<forall>langContent.
               generateArticle env (Suc i) (formData\<lparr>fd_languages := [?langs ! i]\<rparr>)
                 = OkJson langContent
               \<and> ?langs ! i \<in> set supportedLanguages
               \<and> ?langs ! i \<notin> set (drop (Suc i) ?langs)
               \<longrightarrow>
                 (\<forall>title. lc_title langContent = Some title \<and> truthy (title (?langs ! i))
                    \<longrightarrow> d_title d (?langs ! i) = title (?langs ! i))
               \<and> (\<forall>excerpt. lc_title langContent \<noteq> None \<and> lc_excerpt langContent = Some excerpt
                      \<and> truthy (excerpt (?langs ! i))
                    \<longrightarrow> d_excerpt d (?langs ! i) = excerpt (?langs ! i))
               \<and> (\<forall>body. lc_title langContent \<noteq> None \<and> lc_excerpt langContent \<noteq> None
                      \<and> lc_content langContent = Some body
                    \<longrightarrow> (\<forall>blocks. body (?langs ! i) = Some (BlockArray blocks)
                            \<longrightarrow> d_content d (?langs ! i) = Some blocks)
                      \<and> (\<forall>markdown. body (?langs ! i) = Some (MarkdownText markdown)
                              \<and> markdown \<noteq> []
                            \<longrightarrow> d_content d (?langs ! i) = Some (formatBlockContent markdown)))"
  proof (intro allI impI, elim conjE)
    fix i langContent
    assume i: "i < length ?langs"
      and ok: "generateArticle env (Suc i) (formData\<lparr>fd_languages := [?langs ! i]\<rparr>)
                 = OkJson langContent"
      and supported: "?langs ! i \<in> set supportedLanguages"
      and last: "?langs ! i \<notin> set (drop (Suc i) ?langs)"
    note k = document_kept [OF i last ok supported c_def d_def]
    show "(\<forall>title. lc_title langContent = Some title \<and> truthy (title (?langs ! i))
             \<longrightarrow> d_title d (?langs ! i) = title (?langs ! i))
        \<and> (\<forall>excerpt. lc_title langContent \<noteq> None \<and> lc_excerpt langContent = Some excerpt
               \<and> truthy (excerpt (?langs ! i))
             \<longrightarrow> d_excerpt d (?langs ! i) = excerpt (?langs ! i))
        \<and> (\<forall>body. lc_title langContent \<noteq> None \<and> lc_excerpt langContent \<noteq> None
               \<and> lc_content langContent = Some body
             \<longrightarrow> (\<forall>blocks. body (?langs ! i) = Some (BlockArray blocks)
                     \<longrightarrow> d_content d (?langs ! i) = Some blocks)
               \<and> (\<forall>markdown. body (?langs ! i) = Some (MarkdownText markdown)
                       \<and> markdown \<noteq> []
                     \<longrightarrow> d_content d (?langs ! i) = Some (formatBlockContent markdown)))"
      using k(1) k(2) k(3) k(4) by blast
  qed
  have failed: "d_title d (?langs ! i) = None \<and> d_excerpt d (?langs ! i) = None
                  \<and> d_content d (?langs ! i) = None"
    if "distinct ?langs" and "i < length ?langs"
      and "\<forall>langContent. generateArticle env (Suc i)
             (formData\<lparr>fd_languages := [?langs ! i]\<rparr>) \<noteq> OkJson langContent" for i
  proof -
    have "?langs ! i \<notin> set (succeededFrom env formData 0 ?langs)"
      using that by (intro failed_not_succeeded) simp_all
    then show ?thesis
      using skipped by (simp add: succeededLanguages_def)
  qed
  have partial: "\<exists>lang \<in> set ?langs. d_title d lang = None \<and> d_excerpt d lang = None
                   \<and> d_content d lang = None"
    if dist: "distinct ?langs"
  proof -
    obtain j where j: "j < length ?langs"
      and no: "\<forall>langContent. generateArticle env (Suc (0 + j))
                 (formData\<lparr>fd_languages := [?langs ! j]\<rparr>) \<noteq> OkJson langContent"
      using some_request_fails [of env formData 0 ?langs] assms(3)
      unfolding succeededLanguages_def by blast
    from no have "\<forall>langContent. generateArticle env (Suc j)
                    (formData\<lparr>fd_languages := [?langs ! j]\<rparr>) \<noteq> OkJson langContent"
      by simp
    then have "d_title d (?langs ! j) = None \<and> d_excerpt d (?langs ! j) = None
                 \<and> d_content d (?langs ! j) = None"
      using failed [OF dist j] by blast
    moreover have "?langs ! j \<in> set ?langs"
      using j by simp
    ultimately show ?thesis by blast
  qed
  have run': "generate env formData documentId st = (Inr d, st')"
    using run by (simp add: d_def c_def)
  have progress: "p_state (h_progress st') = Complete"
    "p_completedLanguages (h_progress st') = fd_languages formData"
    using final by simp_all
  show ?thesis
    using run' final(1) progress doms kept failed partial by blast
qed

theorem generate_partial_success_witness:
  "fd_topic threeLanguageForm \<noteq> [] \<and> fd_languages threeLanguageForm \<noteq> []
   \<and> length (succeededLanguages middleFailsEnv threeLanguageForm)
       < length (fd_languages threeLanguageForm)
   \<and> \<not> imageSearchThrows middleFailsEnv threeLanguageForm
   \<and> distinct (fd_languages threeLanguageForm)
   \<and> (\<exists>documentData st'.
         generate middleFailsEnv threeLanguageForm ''doc'' idleState = (Inr documentData, st')
       \<and> h_state st' = Complete
       \<and> p_completedLanguages (h_progress st') = [''en'', ''ro'', ''pl'']
       \<and> d_title documentData ''en'' = Some ''Happy dog''
       \<and> d_excerpt documentData ''en'' = Some ''About dogs''
       \<and> d_content documentData ''en'' = Some (formatBlockContent ''# Dogs'')
       \<and> d_title documentData ''pl'' = Some ''Szczesliwy pies''
       \<and> d_excerpt documentData ''pl'' = Some ''O psach''
       \<and> d_content documentData ''pl'' = Some (formatBlockContent ''# Psy'')
       \<and> d_title documentData ''ro'' = None
       \<and> d_excerpt documentData ''ro'' = None
       \<and> d_content documentData ''ro'' = None)"
proof -
  let ?F = threeLanguageForm and ?E = middleFailsEnv
  have langs: "fd_languages ?F = [''en'', ''ro'', ''pl'']"
    by (simp add: threeLanguageForm_def)
  have topic: "fd_topic ?F \<noteq> []"
    by (simp add: threeLanguageForm_def sampleForm_def)
  have nonempty: "fd_languages ?F \<noteq> []"
    by (simp add: langs)
  have failing: "length (succeededLanguages ?E ?F) < length (fd_languages ?F)"
    by code_simp
  have search: "\<not> imageSearchThrows ?E ?F"
    by code_simp
  have dist: "distinct (fd_languages ?F)"
    by (simp add: langs)
  from generate_partial_success [OF topic nonempty failing search, of "''doc''" idleState]
  obtain d st' where all:
    "generate ?E ?F ''doc'' idleState = (Inr d, st')
     \<and> h_state st' = Complete
     \<and> p_state (h_progress st') = Complete
     \<and> p_completedLanguages (h_progress st') = fd_languages ?F
     \<and> dom (d_title d) \<subseteq> set (succeededLanguages ?E ?F)
     \<and> dom (d_excerpt d) \<subseteq> set (succeededLanguages ?E ?F)
     \<and> dom (d_content d) \<subseteq> set (succeededLanguages ?E ?F)
     \<and> (\<forall>i < length (fd_languages ?F). \<forall>langContent.
           generateArticle ?E (Suc i) (?F\<lparr>fd_languages := [fd_languages ?F ! i]\<rparr>)
             = OkJson langContent
           \<and> fd_languages ?F ! i \<in> set supportedLanguages
           \<and> fd_languages ?F ! i \<notin> set (drop (Suc i) (fd_languages ?F))
           \<longrightarrow>
             (\<forall>title. lc_title langContent = Some title \<and> truthy (title (fd_languages ?F ! i))
                \<longrightarrow> d_title d (fd_languages ?F ! i) = title (fd_languages ?F ! i))
           \<and> (\<forall>excerpt. lc_title langContent \<noteq> None \<and> lc_excerpt langContent = Some excerpt
                  \<and> truthy (excerpt (fd_languages ?F ! i))
                \<longrightarrow> d_excerpt d (fd_languages ?F ! i) = excerpt (fd_languages ?F ! i))
           \<and> (\<forall>body. lc_title langContent \<noteq> None \<and> lc_excerpt langContent \<noteq> None
                  \<and> lc_content langContent = Some body
                \<longrightarrow> (\<forall>blocks. body (fd_languages ?F ! i) = Some (BlockArray blocks)
                        \<longrightarrow> d_content d (fd_languages ?F ! i) = Some blocks)
                  \<and> (\<forall>markdown. body (fd_languages ?F ! i) = Some (MarkdownText markdown)
                          \<and> markdown \<noteq> []
                        \<longrightarrow> d_content d (fd_languages ?F ! i)
                              = Some (formatBlockContent markdown))))
     \<and> (distinct (fd_languages ?F) \<longrightarrow>
           (\<forall>i < length (fd_languages ?F).
              (\<forall>langContent. generateArticle ?E (Suc i)
                   (?F\<lparr>fd_languages := [fd_languages ?F ! i]\<rparr>) \<noteq> OkJson langContent)
              \<longrightarrow> d_title d (fd_languages ?F ! i) = None
                \<and> d_excerpt d (fd_languages ?F ! i) = None
                \<and> d_content d (fd_languages ?F ! i) = None)
         \<and> (\<exists>lang \<in> set (fd_languages ?F).
               d_title d lang = None \<and> d_excerpt d lang = None \<and> d_content d lang = None))"
    by (elim exE) (rule that)
  note run = all [THEN conjunct1]
  note state = all [THEN conjunct2, THEN conjunct1]
  note completed = all [THEN conjunct2, THEN conjunct2, THEN conjunct2, THEN conjunct1]
  note kept = all [THEN conjunct2, THEN conjunct2, THEN conjunct2, THEN conjunct2,
                   THEN conjunct2, THEN conjunct2, THEN conjunct2, THEN conjunct1]
  note skipped = all [THEN conjunct2, THEN conjunct2, THEN conjunct2, THEN conjunct2,
                      THEN conjunct2, THEN conjunct2, THEN conjunct2, THEN conjunct2]
  have en_ok: "generateArticle ?E (Suc 0) (?F\<lparr>fd_languages := [fd_languages ?F ! 0]\<rparr>)
                 = OkJson englishContent"
    and pl_ok: "generateArticle ?E (Suc 2) (?F\<lparr>fd_languages := [fd_languages ?F ! 2]\<rparr>)
                 = OkJson englishContent"
    and ro_fails: "\<forall>langContent. generateArticle ?E (Suc 1)
                     (?F\<lparr>fd_languages := [fd_languages ?F ! 1]\<rparr>) \<noteq> OkJson langContent"
    by (simp_all add: middleFailsEnv_def)
  have en: "d_title d ''en'' = Some ''Happy dog'' \<and> d_excerpt d ''en'' = Some ''About dogs''
              \<and> d_content d ''en'' = Some (formatBlockContent ''# Dogs'')"
    using kept [rule_format, of 0 englishContent] en_ok
    by (simp add: langs supportedLanguages_def englishContent_def truthy_def)
  have pl: "d_title d ''pl'' = Some ''Szczesliwy pies'' \<and> d_excerpt d ''pl'' = Some ''O psach''
              \<and> d_content d ''pl'' = Some (formatBlockContent ''# Psy'')"
    using kept [rule_format, of 2 englishContent] pl_ok
    by (simp add: langs supportedLanguages_def englishContent_def truthy_def)
  have ro: "d_title d ''ro'' = None \<and> d_excerpt d ''ro'' = None \<and> d_content d ''ro'' = None"
    using skipped [THEN mp, OF dist, THEN conjunct1, rule_format, of 1] ro_fails
    by (simp add: langs)
  have listed: "p_completedLanguages (h_progress st') = [''en'', ''ro'', ''pl'']"
    using completed by (simp add: langs)
  show ?thesis
    using topic nonempty failing search dist run state listed en pl ro by blast
qed

subsection \<open>Validation\<close>

text \<open>
  Claim C2. When the topic is the empty string or the list of languages is empty,
  \<open>generate\<close> throws the validation error and ends in the \<open>error\<close> state, and the log of
  requests is what it was before the call: neither the image search nor a generation
  request is sent.
\<close>

theorem generate_validation:
  assumes "fd_topic formData = [] \<or> fd_languages formData = []"
  shows "fst (generate env formData documentId st) = Inl (JsError ''Error'' validationMessage)
       \<and> h_state (snd (generate env formData documentId st)) = Error
       \<and> p_state (h_progress (snd (generate env formData documentId st))) = Error
       \<and> h_error (snd (generate env formData documentId st)) = Some validationMessage
       \<and> requests (snd (generate env formData documentId st)) = requests st"
  using assms by (auto simp: generate_def generateBody_def Let_def)

theorem generate_validation_witness:
  "(fd_topic (sampleForm\<lparr>fd_topic := []\<rparr>) = []
      \<or> fd_languages (sampleForm\<lparr>fd_topic := []\<rparr>) = [])
   \<and> fst (generate partialEnv (sampleForm\<lparr>fd_topic := []\<rparr>) ''doc'' idleState)
       = Inl (JsError ''Error'' ''Topic and at least one language are required'')
   \<and> h_state (snd (generate partialEnv (sampleForm\<lparr>fd_topic := []\<rparr>) ''doc'' idleState)) = Error
   \<and> requests (snd (generate partialEnv (sampleForm\<lparr>fd_topic := []\<rparr>) ''doc'' idleState)) = []
   \<and> (fd_topic (sampleForm\<lparr>fd_languages := []\<rparr>) = []
      \<or> fd_languages (sampleForm\<lparr>fd_languages := []\<rparr>) = [])
   \<and> h_state (snd (generate partialEnv (sampleForm\<lparr>fd_languages := []\<rparr>) ''doc'' idleState))
       = Error
   \<and> requests (snd (generate partialEnv (sampleForm\<lparr>fd_languages := []\<rparr>) ''doc'' idleState))
       = []"
proof -
  have noTopic: "fd_topic (sampleForm\<lparr>fd_topic := []\<rparr>) = []
                   \<or> fd_languages (sampleForm\<lparr>fd_topic := []\<rparr>) = []"
    by simp
  have noLanguage: "fd_topic (sampleForm\<lparr>fd_languages := []\<rparr>) = []
                      \<or> fd_languages (sampleForm\<lparr>fd_languages := []\<rparr>) = []"
    by simp
  have log: "requests idleState = []"
    by (simp add: idleState_def)
  show ?thesis
    using generate_validation [OF noTopic, of partialEnv "''doc''" idleState]
      generate_validation [OF noLanguage, of partialEnv "''doc''" idleState]
      noTopic noLanguage
    unfolding log validationMessage_def by simp
qed

subsection \<open>Tags\<close>

text \<open>
  Claim C3, as stated: whenever some language succeeds, the payload's tags are the
  keywords merged with the tags of the first language that succeeded, also when the first
  requested language failed. It fails on the sample run: Romanian is refused, English
  succeeds with the tags \<open>dog\<close> and \<open>pet\<close>, the keywords are \<open>pet\<close>; the claim gives
  \<open>pet, dog\<close> and the payload's tags are the keywords alone.
\<close>

theorem generate_tags_counterexample:
  "succeededLanguages partialEnv sampleForm = [''en'']
   \<and> spec_firstSuccessfulTags partialEnv sampleForm 0 (fd_languages sampleForm)
       = Some [''dog'', ''pet'']
   \<and> spec_mergedTags partialEnv sampleForm = [''pet'', ''dog'']
   \<and> map_sum errMessage d_tags (fst (generate partialEnv sampleForm ''doc'' idleState))
       = Inr [''pet'']
   \<and> map_sum errMessage d_tags (fst (generate partialEnv sampleForm ''doc'' idleState))
       \<noteq> Inr (spec_mergedTags partialEnv sampleForm)"
  by code_simp

text \<open>
  Claim C3, amended. For a request with a non-empty topic and a non-empty list of
  languages whose step 2 does not throw, \<open>generate\<close> returns a payload whose tags are: the
  keywords merged and de-duplicated with the tags of the first requested language, when
  the request of that language succeeds, the merge of its response reaches the tags (the
  response has its \<open>title\<close>, \<open>excerpt\<close> and \<open>content\<close> objects and, where SEO is merged, the
  \<open>metaTitle\<close> and \<open>metaDescription\<close> objects) and the response has a list of tags; the
  keywords as they are, otherwise. The tags of later languages are never merged.
\<close>

theorem generate_tags:
  assumes "fd_topic formData \<noteq> []" and "fd_languages formData \<noteq> []"
    and "\<not> imageSearchThrows env formData"
  shows "\<exists>documentData st'.
           generate env formData documentId st = (Inr documentData, st')
         \<and> d_tags documentData =
             (case generateArticle env 1
                     (formData\<lparr>fd_languages := [hd (fd_languages formData)]\<rparr>) of
                OkJson langContent \<Rightarrow>
                  (if mergeReachesTags formData langContent
                   then (case lc_tags langContent of
                           Some (TagList tags) \<Rightarrow> arrayFromSet (fd_keywords formData @ tags)
                         | _ \<Rightarrow> fd_keywords formData)
                   else fd_keywords formData)
              | _ \<Rightarrow> fd_keywords formData)"
proof -
  obtain photo st2 sent st' where
    run: "generate env formData documentId st =
            (Inr (prepareDocument env formData
                    (generatedContent (generateLanguages env formData photo st2))
                    (formatContentForSanity
                       (generatedContent (generateLanguages env formData photo st2)))
                    sent), st')"
    using generate_success [OF assms] by blast
  show ?thesis
    using run generateLanguages_tags [OF assms(2), of env photo st2]
    by (simp add: prepareDocument_def)
qed

theorem generate_tags_witness:
  "fd_topic (sampleForm\<lparr>fd_languages := [''en'', ''ro'']\<rparr>) \<noteq> []
   \<and> fd_languages (sampleForm\<lparr>fd_languages := [''en'', ''ro'']\<rparr>) \<noteq> []
   \<and> \<not> imageSearchThrows partialEnv (sampleForm\<lparr>fd_languages := [''en'', ''ro'']\<rparr>)
   \<and> mergeReachesTags (sampleForm\<lparr>fd_languages := [''en'', ''ro'']\<rparr>) englishContent
   \<and> (\<exists>documentData st'.
         generate (partialEnv\<lparr>generateArticle := (\<lambda>n body. OkJson englishContent)\<rparr>)
           (sampleForm\<lparr>fd_languages := [''en'', ''ro'']\<rparr>) ''doc'' idleState
           = (Inr documentData, st')
       \<and> d_tags documentData = [''pet'', ''dog''])
   \<and> \<not> mergeReachesTags (sampleForm\<lparr>fd_languages := [''en'', ''ro'']\<rparr>) noExcerptContent
   \<and> (\<exists>documentData st'.
         generate noExcerptEnv (sampleForm\<lparr>fd_languages := [''en'', ''ro'']\<rparr>) ''doc'' idleState
           = (Inr documentData, st')
       \<and> d_tags documentData = [''pet''])
   \<and> (\<exists>documentData st'.
         generate partialEnv sampleForm ''doc'' idleState = (Inr documentData, st')
       \<and> d_tags documentData = [''pet''])"
proof -
  let ?env = "partialEnv\<lparr>generateArticle := (\<lambda>n body. OkJson englishContent)\<rparr>"
  let ?form = "sampleForm\<lparr>fd_languages := [''en'', ''ro'']\<rparr>"
  have topic: "fd_topic ?form \<noteq> []" and langs: "fd_languages ?form \<noteq> []"
    by (simp_all add: sampleForm_def)
  have search: "\<not> imageSearchThrows ?env ?form"
    by code_simp
  have search0: "\<not> imageSearchThrows partialEnv ?form"
    by code_simp
  have reaches: "mergeReachesTags ?form englishContent"
    by code_simp
  have first: "(case generateArticle ?env 1 (?form\<lparr>fd_languages := [hd (fd_languages ?form)]\<rparr>) of
                  OkJson langContent \<Rightarrow>
                    (if mergeReachesTags ?form langContent
                     then (case lc_tags langContent of
                             Some (TagList tags) \<Rightarrow> arrayFromSet (fd_keywords ?form @ tags)
                           | _ \<Rightarrow> fd_keywords ?form)
                     else fd_keywords ?form)
                | _ \<Rightarrow> fd_keywords ?form) = [''pet'', ''dog'']"
    by code_simp
  have search1: "\<not> imageSearchThrows noExcerptEnv ?form"
    by code_simp
  have stops: "\<not> mergeReachesTags ?form noExcerptContent"
    by code_simp
  have broken: "(case generateArticle noExcerptEnv 1
                        (?form\<lparr>fd_languages := [hd (fd_languages ?form)]\<rparr>) of
                  OkJson langContent \<Rightarrow>
                    (if mergeReachesTags ?form langContent
                     then (case lc_tags langContent of
                             Some (TagList tags) \<Rightarrow> arrayFromSet (fd_keywords ?form @ tags)
                           | _ \<Rightarrow> fd_keywords ?form)
                     else fd_keywords ?form)
                | _ \<Rightarrow> fd_keywords ?form) = [''pet'']"
    by code_simp
  have topic2: "fd_topic sampleForm \<noteq> []" and langs2: "fd_languages sampleForm \<noteq> []"
    by (simp_all add: sampleForm_def)
  have search2: "\<not> imageSearchThrows partialEnv sampleForm"
    by code_simp
  have second: "(case generateArticle partialEnv 1
                        (sampleForm\<lparr>fd_languages := [hd (fd_languages sampleForm)]\<rparr>) of
                  OkJson langContent \<Rightarrow>
                    (if mergeReachesTags sampleForm langContent
                     then (case lc_tags langContent of
                             Some (TagList tags) \<Rightarrow> arrayFromSet (fd_keywords sampleForm @ tags)
                           | _ \<Rightarrow> fd_keywords sampleForm)
                     else fd_keywords sampleForm)
                | _ \<Rightarrow> fd_keywords sampleForm) = [''pet'']"
    by code_simp
  have r1: "\<exists>documentData st'.
         generate ?env ?form ''doc'' idleState = (Inr documentData, st')
       \<and> d_tags documentData = [''pet'', ''dog'']"
    using generate_tags [OF topic langs search, of "''doc''" idleState]
    unfolding first .
  have r2: "\<exists>documentData st'.
         generate noExcerptEnv ?form ''doc'' idleState = (Inr documentData, st')
       \<and> d_tags documentData = [''pet'']"
    using generate_tags [OF topic langs search1, of "''doc''" idleState]
    unfolding broken .
  have r3: "\<exists>documentData st'.
         generate partialEnv sampleForm ''doc'' idleState = (Inr documentData, st')
       \<and> d_tags documentData = [''pet'']"
    using generate_tags [OF topic2 langs2 search2, of "''doc''" idleState]
    unfolding second .
  show ?thesis
    using topic langs search0 reaches stops r1 r2 r3 by blast
qed

subsection \<open>The image search\<close>

text \<open>A response that is not ok and an empty list of results leave the run without a
  featured image; the first result is the one taken; a rejected fetch is thrown to the
  caller.\<close>

lemma generate_search_without_result:
  assumes "fd_topic formData \<noteq> []" and "fd_languages formData \<noteq> []"
    and "is_featuredImage (fd_imageSettings formData)"
    and "searchImages env (searchApiUrl env) (imageQuery formData) = NotOk
         \<or> searchImages env (searchApiUrl env) (imageQuery formData) = OkJson None
         \<or> searchImages env (searchApiUrl env) (imageQuery formData) = OkJson (Some [])"
  shows "\<exists>documentData st'.
           generate env formData documentId st = (Inr documentData, st')
         \<and> h_state st' = Complete
         \<and> d_featuredImage documentData = None"
  using assms
  by (auto simp: generate_def generateBody_def searchFeaturedImage_def Let_def
        uploadFeaturedImage_def prepareDocument_def truthy_def)

lemma generate_search_first_result:
  assumes "fd_topic formData \<noteq> []" and "fd_languages formData \<noteq> []"
    and "is_featuredImage (fd_imageSettings formData)"
    and "searchImages env (searchApiUrl env) (imageQuery formData) = OkJson (Some (photo # others))"
  shows "fst (searchFeaturedImage env formData st) = Inr (Some photo)
       \<and> requests (snd (searchFeaturedImage env formData st))
           = requests st @ [SearchRequest (searchApiUrl env) (imageQuery formData) 1]"
  using assms by (simp add: searchFeaturedImage_def Let_def)

lemma generate_search_rejected:
  assumes "fd_topic formData \<noteq> []" and "fd_languages formData \<noteq> []"
    and "is_featuredImage (fd_imageSettings formData)"
    and "searchImages env (searchApiUrl env) (imageQuery formData) = Rejected e"
  shows "fst (generate env formData documentId st) = Inl e
       \<and> h_state (snd (generate env formData documentId st)) = Error
       \<and> requests (snd (generate env formData documentId st))
           = requests st @ [SearchRequest (searchApiUrl env) (imageQuery formData) 1]"
  using assms by (simp add: generate_def generateBody_def searchFeaturedImage_def Let_def)

text \<open>
  Claim C7 says that a failed image search never ends the run. On the sample request,
  with a featured image asked for and the fetch of the image search rejecting, \<open>generate\<close>
  throws that error and ends in the \<open>error\<close> state, having sent the search request (with
  the topic as query, the keywords being blank, and one result per page) and no
  generation request.
\<close>

theorem generate_search_rejected_fatal:
  "is_featuredImage (fd_imageSettings sampleForm)
   \<and> succeededLanguages offlineSearchEnv sampleForm = fd_languages sampleForm
   \<and> fst (generate offlineSearchEnv sampleForm ''doc'' idleState)
       = Inl (JsError ''TypeError'' ''Failed to fetch'')
   \<and> h_state (snd (generate offlineSearchEnv sampleForm ''doc'' idleState)) = Error
   \<and> requests (snd (generate offlineSearchEnv sampleForm ''doc'' idleState))
       = [SearchRequest ''/api/unsplash-search'' ''x'' 1]"
proof -
  have topic: "fd_topic sampleForm \<noteq> []" and langs: "fd_languages sampleForm \<noteq> []"
    and asked: "is_featuredImage (fd_imageSettings sampleForm)"
    by (simp_all add: sampleForm_def)
  have rejected: "searchImages offlineSearchEnv (searchApiUrl offlineSearchEnv)
                    (imageQuery sampleForm) = Rejected (JsError ''TypeError'' ''Failed to fetch'')"
    by (simp add: offlineSearchEnv_def)
  have url: "searchApiUrl offlineSearchEnv = ''/api/unsplash-search''"
    by (simp add: searchApiUrl_def offlineSearchEnv_def)
  have query: "imageQuery sampleForm = ''x''"
    by (simp add: imageQuery_def sampleForm_def)
  have log: "requests idleState = []"
    by (simp add: idleState_def)
  have all: "succeededLanguages offlineSearchEnv sampleForm = fd_languages sampleForm"
    by code_simp
  show ?thesis
    using generate_search_rejected [OF topic langs asked rejected, of "''doc''" idleState]
      asked all
    unfolding url query log by simp
qed

end
